theory Spec2Isabelle
  imports Complex_Main "HOL-Library.AList"
begin


section \<open>Sector Scorer (stock\_analyzer.py)\<close>

text \<open>
  Python floats are modelled as exact reals: a score is a mean of a few small constants,
  and no claim below depends on rounding. The dictionary of Yahoo Finance metrics is
  typed here: the numeric metrics live in \<open>nums\<close>, the string metrics (sector,
  industry, recommendationKey) in \<open>strs\<close>. A key that is missing and a key that
  holds Python's \<open>None\<close> behave alike under \<open>dict.get\<close>, so both are \<open>None\<close>.
  The insight lists and the summary text of \<open>AnalysisResult\<close> are formatted strings
  with no influence on the scores and are left out of the record.
\<close>

datatype Recommendation = STRONG_BUY | BUY | HOLD | SELL | STRONG_SELL

record benchmark =
  pe_avg :: real
  pe_good :: real
  pe_bad :: real
  pb_avg :: real
  roe_avg :: real
  margin_avg :: real
  growth_avg :: real
  debt_equity_ok :: real

definition mk_benchmark ::
  "real \<Rightarrow> real \<Rightarrow> real \<Rightarrow> real \<Rightarrow> real \<Rightarrow> real \<Rightarrow> real \<Rightarrow> real \<Rightarrow> benchmark" where
  "mk_benchmark a g b pb roe m gr de =
     \<lparr>pe_avg = a, pe_good = g, pe_bad = b, pb_avg = pb, roe_avg = roe,
      margin_avg = m, growth_avg = gr, debt_equity_ok = de\<rparr>"

definition SECTOR_BENCHMARKS :: "(string \<times> benchmark) list" where
  "SECTOR_BENCHMARKS =
    [(''Technology'', mk_benchmark 35 25 60 8 20 25 15 1.5),
     (''Software'', mk_benchmark 45 30 80 15 25 30 25 1.0),
     (''Finance'', mk_benchmark 12 10 18 1.2 12 35 8 3.0),
     (''Consumer Cyclical'', mk_benchmark 20 15 30 4 18 10 10 1.2),
     (''Healthcare'', mk_benchmark 22 18 35 5 15 18 12 0.8),
     (''Energy'', mk_benchmark 15 10 25 1.5 10 8 5 1.0),
     (''Industrials'', mk_benchmark 18 15 25 3 14 12 8 1.0),
     (''Consumer Defensive'', mk_benchmark 22 18 30 4 16 8 5 0.8),
     (''Communication Services'', mk_benchmark 25 18 40 3 15 20 12 1.2),
     (''Utilities'', mk_benchmark 18 15 25 1.8 10 12 3 1.5),
     (''Real Estate'', mk_benchmark 30 20 50 2 8 15 5 2.0),
     (''Basic Materials'', mk_benchmark 16 12 25 2 12 10 6 0.8)]"

definition DEFAULT_BENCHMARK :: benchmark where
  "DEFAULT_BENCHMARK = mk_benchmark 25 18 40 4 15 15 10 1.0"

record stock_data =
  nums :: "string \<rightharpoonup> real"
  strs :: "string \<rightharpoonup> string"

record analyzer =
  data :: stock_data
  sector :: string
  industry :: string
  benchmarks :: benchmark

record AnalysisResult =
  overall_score :: real
  recommendation :: Recommendation
  result_sector :: string
  result_industry :: string
  valuation_score :: real
  financial_health_score :: real
  growth_score :: real
  momentum_score :: real
  sentiment_score :: real

text \<open>\<open>StockAnalyzer.__init__\<close>: \<open>get\<close> with a default, and the benchmark row of the
  sector or the default row.\<close>

definition get_str :: "stock_data \<Rightarrow> string \<Rightarrow> string \<Rightarrow> string" where
  "get_str d k dflt = (case strs d k of Some s \<Rightarrow> s | None \<Rightarrow> dflt)"

definition init :: "stock_data \<Rightarrow> analyzer" where
  "init stock =
     (let sec = get_str stock ''sector'' ''Unknown'' in
      \<lparr>data = stock,
       sector = sec,
       industry = get_str stock ''industry'' ''Unknown'',
       benchmarks = (case map_of SECTOR_BENCHMARKS sec of
                       Some b \<Rightarrow> b | None \<Rightarrow> DEFAULT_BENCHMARK)\<rparr>)"

text \<open>\<open>self.data.get(key)\<close> for a numeric metric.\<close>

definition get_num :: "analyzer \<Rightarrow> string \<Rightarrow> real option" where
  "get_num self k = nums (data self) k"

text \<open>The guard \<open>if v:\<close> around a block that appends points (Python truthiness:
  \<open>None\<close> and \<open>0\<close> are false), and the guard \<open>if v is not None:\<close>.\<close>

definition if_truthy :: "real option \<Rightarrow> (real \<Rightarrow> real list) \<Rightarrow> real list" where
  "if_truthy v body = (case v of None \<Rightarrow> [] | Some x \<Rightarrow> if x \<noteq> 0 then body x else [])"

definition if_not_None :: "real option \<Rightarrow> (real \<Rightarrow> real list) \<Rightarrow> real list" where
  "if_not_None v body = (case v of None \<Rightarrow> [] | Some x \<Rightarrow> body x)"

text \<open>\<open>sum(points) / len(points) if points else 50\<close>.\<close>

definition score_of :: "real list \<Rightarrow> real" where
  "score_of points = (if points \<noteq> [] then sum_list points / real (length points) else 50)"

subsection \<open>Valuation\<close>

definition pe_points :: "analyzer \<Rightarrow> real list" where
  "pe_points self =
     if_truthy (get_num self ''trailingPE'') (\<lambda>pe.
       if pe < pe_good (benchmarks self) then [80]
       else if pe < pe_avg (benchmarks self) then [60]
       else if pe < pe_bad (benchmarks self) then [40]
       else [20])"

definition pb_points :: "analyzer \<Rightarrow> real list" where
  "pb_points self =
     if_truthy (get_num self ''priceToBook'') (\<lambda>pb.
       let pb_avg = pb_avg (benchmarks self) in
       if pb < pb_avg * 0.7 then [80]
       else if pb < pb_avg then [60]
       else if pb < pb_avg * 1.5 then [40]
       else [20])"

definition peg_points :: "analyzer \<Rightarrow> real list" where
  "peg_points self =
     if_truthy (get_num self ''pegRatio'') (\<lambda>peg.
       if peg < 1 then [90]
       else if peg < 1.5 then [70]
       else if peg < 2 then [50]
       else [30])"

definition forward_pe_points :: "analyzer \<Rightarrow> real list" where
  "forward_pe_points self =
     if_truthy (get_num self ''forwardPE'') (\<lambda>forward_pe.
       if_truthy (get_num self ''trailingPE'') (\<lambda>pe.
         if forward_pe < pe * 0.9 then [70]
         else if forward_pe < pe then [60]
         else [40]))"

definition valuation_points :: "analyzer \<Rightarrow> real list" where
  "valuation_points self =
     pe_points self @ pb_points self @ peg_points self @ forward_pe_points self"

definition analyze_valuation :: "analyzer \<Rightarrow> real" where
  "analyze_valuation self = score_of (valuation_points self)"

subsection \<open>Financial health\<close>

definition roe_points :: "analyzer \<Rightarrow> real list" where
  "roe_points self =
     if_truthy (get_num self ''returnOnEquity'') (\<lambda>roe.
       let roe_pct = roe * 100; roe_avg = roe_avg (benchmarks self) in
       if roe_pct > roe_avg * 1.3 then [90]
       else if roe_pct > roe_avg then [70]
       else if roe_pct > roe_avg * 0.7 then [50]
       else [30])"

definition roa_points :: "analyzer \<Rightarrow> real list" where
  "roa_points self =
     if_truthy (get_num self ''returnOnAssets'') (\<lambda>roa.
       if roa > 0.15 then [85]
       else if roa > 0.10 then [70]
       else if roa > 0.05 then [50]
       else [30])"

definition debt_equity_points :: "analyzer \<Rightarrow> real list" where
  "debt_equity_points self =
     if_not_None (get_num self ''debtToEquity'') (\<lambda>debt_equity.
       let de_ok = debt_equity_ok (benchmarks self) in
       if debt_equity < de_ok * 0.5 then [90]
       else if debt_equity < de_ok then [70]
       else if debt_equity < de_ok * 1.5 then [40]
       else [20])"

definition margin_points :: "analyzer \<Rightarrow> real list" where
  "margin_points self =
     if_truthy (get_num self ''profitMargins'') (\<lambda>margin.
       let margin_pct = margin * 100; margin_avg = margin_avg (benchmarks self) in
       if margin_pct > margin_avg * 1.3 then [90]
       else if margin_pct > margin_avg then [70]
       else if margin_pct > margin_avg * 0.7 then [50]
       else [30])"

definition fcf_points :: "analyzer \<Rightarrow> real list" where
  "fcf_points self =
     if_truthy (get_num self ''freeCashflow'') (\<lambda>fcf.
       if fcf > 0 then [70] else [20])"

definition financial_health_points :: "analyzer \<Rightarrow> real list" where
  "financial_health_points self =
     roe_points self @ roa_points self @ debt_equity_points self @
     margin_points self @ fcf_points self"

definition analyze_financial_health :: "analyzer \<Rightarrow> real" where
  "analyze_financial_health self = score_of (financial_health_points self)"

subsection \<open>Growth\<close>

definition revenue_growth_points :: "analyzer \<Rightarrow> real list" where
  "revenue_growth_points self =
     if_truthy (get_num self ''revenueGrowth'') (\<lambda>rev_growth.
       let growth_pct = rev_growth * 100; growth_avg = growth_avg (benchmarks self) in
       if growth_pct > growth_avg * 2 then [95]
       else if growth_pct > growth_avg * 1.3 then [80]
       else if growth_pct > growth_avg then [65]
       else if growth_pct > 0 then [45]
       else [20])"

definition earnings_growth_points :: "analyzer \<Rightarrow> real list" where
  "earnings_growth_points self =
     if_truthy (get_num self ''earningsGrowth'') (\<lambda>earnings_growth.
       let eg_pct = earnings_growth * 100 in
       if eg_pct > 25 then [90]
       else if eg_pct > 15 then [75]
       else if eg_pct > 5 then [55]
       else if eg_pct > 0 then [40]
       else [25])"

definition gross_margin_points :: "analyzer \<Rightarrow> real list" where
  "gross_margin_points self =
     if_truthy (get_num self ''grossMargins'') (\<lambda>gross_margin.
       let gm_pct = gross_margin * 100 in
       if gm_pct > 50 then [85]
       else if gm_pct > 30 then [70]
       else if gm_pct > 20 then [50]
       else [30])"

definition growth_points :: "analyzer \<Rightarrow> real list" where
  "growth_points self =
     revenue_growth_points self @ earnings_growth_points self @ gross_margin_points self"

definition analyze_growth :: "analyzer \<Rightarrow> real" where
  "analyze_growth self = score_of (growth_points self)"

subsection \<open>Momentum\<close>

text \<open>The body of the loop over \<open>[(perf_1w, 1.2), (perf_1m, 1.0), (perf_3m, 0.8)]\<close>.\<close>

definition perf_points :: "real option \<Rightarrow> real \<Rightarrow> real list" where
  "perf_points perf weight =
     if_not_None perf (\<lambda>perf.
       if perf > 10 then [90 * weight]
       else if perf > 5 then [75 * weight]
       else if perf > 0 then [60 * weight]
       else if perf > -5 then [40 * weight]
       else [20 * weight])"

definition moving_average_points :: "analyzer \<Rightarrow> real list" where
  "moving_average_points self =
     if_truthy (get_num self ''fiftyDayAverage'') (\<lambda>ma_50.
       if_truthy (get_num self ''twoHundredDayAverage'') (\<lambda>ma_200.
         if_truthy (get_num self ''currentPrice'') (\<lambda>current_price.
           if current_price > ma_50 \<and> ma_50 > ma_200 then [85]
           else if current_price > ma_50 then [70]
           else if current_price > ma_200 then [55]
           else [30])))"

definition momentum_points :: "analyzer \<Rightarrow> real list" where
  "momentum_points self =
     concat (map (\<lambda>(perf, weight). perf_points perf weight)
       [(get_num self ''performance_1w'', 1.2),
        (get_num self ''performance_1m'', 1.0),
        (get_num self ''performance_3m'', 0.8)])
     @ moving_average_points self"

definition analyze_momentum :: "analyzer \<Rightarrow> real" where
  "analyze_momentum self = score_of (momentum_points self)"

subsection \<open>Sentiment\<close>

text \<open>\<open>str.lower\<close> on the ASCII letters, which is all the keys of \<open>rec_map\<close> need.\<close>

definition lower_char :: "char \<Rightarrow> char" where
  "lower_char c =
     (let n = (of_char c :: nat) in if 65 \<le> n \<and> n \<le> 90 then char_of (n + 32) else c)"

definition lower :: "string \<Rightarrow> string" where
  "lower s = map lower_char s"

definition rec_map :: "(string \<times> real) list" where
  "rec_map = [(''strong_buy'', 95), (''buy'', 75), (''hold'', 50), (''sell'', 25),
              (''strong_sell'', 5)]"

definition recommendation_points :: "analyzer \<Rightarrow> real list" where
  "recommendation_points self =
     (let rec_key = get_str (data self) ''recommendationKey'' [] in
      if rec_key \<noteq> [] then
        [case map_of rec_map (lower rec_key) of Some p \<Rightarrow> p | None \<Rightarrow> 50]
      else [])"

definition target_points :: "analyzer \<Rightarrow> real list" where
  "target_points self =
     if_truthy (get_num self ''targetMeanPrice'') (\<lambda>target_mean.
       if_truthy (get_num self ''currentPrice'') (\<lambda>current.
         let upside = ((target_mean - current) / current) * 100 in
         if upside > 30 then [95]
         else if upside > 15 then [80]
         else if upside > 5 then [65]
         else if upside > -5 then [45]
         else [25]))"

definition institutions_points :: "analyzer \<Rightarrow> real list" where
  "institutions_points self =
     if_truthy (get_num self ''heldPercentInstitutions'') (\<lambda>inst_pct.
       if inst_pct > 0.7 then [70]
       else if inst_pct > 0.5 then [60]
       else [45])"

definition short_points :: "analyzer \<Rightarrow> real list" where
  "short_points self =
     if_truthy (get_num self ''shortPercentOfFloat'') (\<lambda>short_pct.
       if short_pct < 0.05 then [75]
       else if short_pct < 0.10 then [60]
       else if short_pct > 0.20 then [30]
       else [50])"

definition sentiment_points :: "analyzer \<Rightarrow> real list" where
  "sentiment_points self =
     recommendation_points self @ target_points self @ institutions_points self @
     short_points self"

definition analyze_sentiment :: "analyzer \<Rightarrow> real" where
  "analyze_sentiment self = score_of (sentiment_points self)"

subsection \<open>Recommendation and the composite score\<close>

definition get_recommendation :: "real \<Rightarrow> Recommendation" where
  "get_recommendation score =
     (if score \<ge> 75 then STRONG_BUY
      else if score \<ge> 60 then BUY
      else if score \<ge> 40 then HOLD
      else if score \<ge> 25 then SELL
      else STRONG_SELL)"

definition analyze :: "analyzer \<Rightarrow> AnalysisResult" where
  "analyze self =
     (let valuation = analyze_valuation self;
          health = analyze_financial_health self;
          growth = analyze_growth self;
          momentum = analyze_momentum self;
          sentiment = analyze_sentiment self;
          overall = valuation * 0.25 + health * 0.20 + growth * 0.25 +
                    momentum * 0.15 + sentiment * 0.15
      in \<lparr>overall_score = overall,
          recommendation = get_recommendation overall,
          result_sector = sector self,
          result_industry = industry self,
          valuation_score = valuation,
          financial_health_score = health,
          growth_score = growth,
          momentum_score = momentum,
          sentiment_score = sentiment\<rparr>)"

text \<open>The fundamentals mapping of the spec's end-to-end scenario.\<close>

definition scenario :: stock_data where
  "scenario =
     \<lparr>nums = [''trailingPE'' \<mapsto> 20, ''priceToBook'' \<mapsto> 5, ''pegRatio'' \<mapsto> 0.8,
              ''revenueGrowth'' \<mapsto> 0.30, ''profitMargins'' \<mapsto> 0.28,
              ''returnOnEquity'' \<mapsto> 0.25, ''debtToEquity'' \<mapsto> 0.5,
              ''targetMeanPrice'' \<mapsto> 250, ''currentPrice'' \<mapsto> 200],
      strs = [''sector'' \<mapsto> ''Technology'', ''recommendationKey'' \<mapsto> ''strong_buy'']\<rparr>"

text \<open>
  Every block of the five category functions appends at most one point. The two tables
  pair each scored numeric metric with the block it feeds, by the guard the block is
  under: \<open>if v:\<close> (truthiness) or \<open>if v is not None:\<close>.
\<close>

definition truthy_guarded :: "(string \<times> (analyzer \<Rightarrow> real list)) list" where
  "truthy_guarded =
    [(''trailingPE'', pe_points), (''trailingPE'', forward_pe_points),
     (''forwardPE'', forward_pe_points), (''priceToBook'', pb_points),
     (''pegRatio'', peg_points), (''returnOnEquity'', roe_points),
     (''returnOnAssets'', roa_points), (''profitMargins'', margin_points),
     (''freeCashflow'', fcf_points), (''revenueGrowth'', revenue_growth_points),
     (''earningsGrowth'', earnings_growth_points), (''grossMargins'', gross_margin_points),
     (''fiftyDayAverage'', moving_average_points),
     (''twoHundredDayAverage'', moving_average_points),
     (''currentPrice'', moving_average_points), (''targetMeanPrice'', target_points),
     (''currentPrice'', target_points), (''heldPercentInstitutions'', institutions_points),
     (''shortPercentOfFloat'', short_points)]"

definition none_guarded :: "(string \<times> (analyzer \<Rightarrow> real list)) list" where
  "none_guarded =
    [(''debtToEquity'', debt_equity_points),
     (''performance_1w'', \<lambda>self. perf_points (get_num self ''performance_1w'') 1.2),
     (''performance_1m'', \<lambda>self. perf_points (get_num self ''performance_1m'') 1.0),
     (''performance_3m'', \<lambda>self. perf_points (get_num self ''performance_3m'') 0.8)]"

definition scored_metrics :: "string list" where
  "scored_metrics = remdups (map fst (truthy_guarded @ none_guarded))"

text \<open>Inputs used as examples below.\<close>

definition zero_example :: stock_data where
  "zero_example = \<lparr>nums = [''freeCashflow'' \<mapsto> 0, ''debtToEquity'' \<mapsto> 0], strs = Map.empty\<rparr>"

definition sector_only :: stock_data where
  "sector_only = \<lparr>nums = Map.empty, strs = [''sector'' \<mapsto> ''Technology'']\<rparr>"

definition momentum_example :: stock_data where
  "momentum_example = \<lparr>nums = [''performance_1w'' \<mapsto> 11], strs = Map.empty\<rparr>"

section \<open>Indicator Engine (enhanced\_finance\_data.py, openbb\_app.py)\<close>

subsection \<open>Floating-point values\<close>

text \<open>
  A cell of a pandas float64 column: a finite number, an infinity, or NaN (which also
  stands for "not enough history"). Finite arithmetic is exact and the sign of zero is
  not modelled; what is modelled is how the special values arise and propagate:
  a nonzero number divided by zero is an infinity, zero by zero is NaN, a finite number
  divided by an infinity is zero, NaN is absorbing and every comparison with NaN is
  false.
\<close>

datatype fnum = Fin real | PInf | MInf | NaN

fun fneg :: "fnum \<Rightarrow> fnum" where
  "fneg (Fin a) = Fin (- a)"
| "fneg PInf = MInf"
| "fneg MInf = PInf"
| "fneg NaN = NaN"

fun fadd :: "fnum \<Rightarrow> fnum \<Rightarrow> fnum" where
  "fadd (Fin a) (Fin b) = Fin (a + b)"
| "fadd NaN y = NaN"
| "fadd x NaN = NaN"
| "fadd PInf MInf = NaN"
| "fadd MInf PInf = NaN"
| "fadd PInf y = PInf"
| "fadd MInf y = MInf"
| "fadd x PInf = PInf"
| "fadd x MInf = MInf"

definition fsub :: "fnum \<Rightarrow> fnum \<Rightarrow> fnum" where
  "fsub x y = fadd x (fneg y)"

text \<open>The sign of a value, for products and quotients with an infinity.\<close>

fun fsign :: "fnum \<Rightarrow> int" where
  "fsign (Fin a) = (if a > 0 then 1 else if a < 0 then -1 else 0)"
| "fsign PInf = 1"
| "fsign MInf = -1"
| "fsign NaN = 0"

definition signed_inf :: "int \<Rightarrow> fnum" where
  "signed_inf s = (if s > 0 then PInf else if s < 0 then MInf else NaN)"

fun fmul :: "fnum \<Rightarrow> fnum \<Rightarrow> fnum" where
  "fmul (Fin a) (Fin b) = Fin (a * b)"
| "fmul NaN y = NaN"
| "fmul x NaN = NaN"
| "fmul x y = signed_inf (fsign x * fsign y)"

fun fdiv :: "fnum \<Rightarrow> fnum \<Rightarrow> fnum" where
  "fdiv (Fin a) (Fin b) = (if b \<noteq> 0 then Fin (a / b) else signed_inf (fsign (Fin a)))"
| "fdiv NaN y = NaN"
| "fdiv x NaN = NaN"
| "fdiv (Fin a) y = Fin 0"
| "fdiv x (Fin b) = signed_inf (fsign x * (if b < 0 then -1 else 1))"
| "fdiv x y = NaN"

fun flt :: "fnum \<Rightarrow> fnum \<Rightarrow> bool" where
  "flt (Fin a) (Fin b) = (a < b)"
| "flt NaN y = False"
| "flt x NaN = False"
| "flt x PInf = (x \<noteq> PInf)"
| "flt MInf y = (y \<noteq> MInf)"
| "flt x y = False"

definition fgt :: "fnum \<Rightarrow> fnum \<Rightarrow> bool" where
  "fgt x y = flt y x"

fun fabs :: "fnum \<Rightarrow> fnum" where
  "fabs (Fin a) = Fin \<bar>a\<bar>"
| "fabs NaN = NaN"
| "fabs x = PInf"

definition fmax :: "fnum \<Rightarrow> fnum \<Rightarrow> fnum" where
  "fmax x y = (if flt x y then y else x)"

definition fmin :: "fnum \<Rightarrow> fnum \<Rightarrow> fnum" where
  "fmin x y = (if flt y x then y else x)"

subsection \<open>The pandas operations the code calls\<close>

text \<open>
  pandas is a library, not code of this repository; the operations are written down
  from its documented behaviour, for the default arguments the code leaves in place
  (\<open>min_periods\<close> equal to the window for \<open>rolling\<close>, \<open>skipna=True\<close>, \<open>ddof=1\<close>,
  \<open>ignore_na=False\<close>). A column is a list of cells; the columns of one frame have the
  same length, so arithmetic between columns is cell by cell.
\<close>

type_synonym column = "fnum list"

text \<open>Arithmetic between a column and a scalar, and between two columns.\<close>

definition scale :: "real \<Rightarrow> column \<Rightarrow> column" where
  "scale k col = map (fmul (Fin k)) col"

definition div_by :: "column \<Rightarrow> real \<Rightarrow> column" where
  "div_by col k = map (\<lambda>x. fdiv x (Fin k)) col"

definition col_add :: "column \<Rightarrow> column \<Rightarrow> column" where
  "col_add a b = map2 fadd a b"

definition col_sub :: "column \<Rightarrow> column \<Rightarrow> column" where
  "col_sub a b = map2 fsub a b"

definition col_mul :: "column \<Rightarrow> column \<Rightarrow> column" where
  "col_mul a b = map2 fmul a b"

definition col_div :: "column \<Rightarrow> column \<Rightarrow> column" where
  "col_div a b = map2 fdiv a b"

text \<open>\<open>s.shift(1)\<close> and \<open>s.diff()\<close>.\<close>

definition shift :: "column \<Rightarrow> column" where
  "shift col = (case col of [] \<Rightarrow> [] | _ # _ \<Rightarrow> NaN # butlast col)"

definition diff :: "column \<Rightarrow> column" where
  "diff col = col_sub col (shift col)"

text \<open>\<open>s.where(cond, other)\<close> keeps a cell where the condition holds and puts
  \<open>other\<close> elsewhere.\<close>

definition where_col :: "column \<Rightarrow> bool list \<Rightarrow> fnum \<Rightarrow> column" where
  "where_col col cond other = map2 (\<lambda>x c. if c then x else other) col cond"

text \<open>\<open>s.rolling(window=n).agg()\<close>: the aggregate of the last \<open>n\<close> cells, NaN while
  fewer than \<open>n\<close> cells are there or when one of them is NaN.\<close>

definition rolling :: "nat \<Rightarrow> (fnum list \<Rightarrow> fnum) \<Rightarrow> column \<Rightarrow> column" where
  "rolling n agg col =
     map (\<lambda>i. if Suc i < n then NaN
              else (let w = take n (drop (Suc i - n) col)
                    in if NaN \<in> set w then NaN else agg w))
       [0..<length col]"

definition fsum :: "fnum list \<Rightarrow> fnum" where
  "fsum w = foldl fadd (Fin 0) w"

definition fmean :: "fnum list \<Rightarrow> fnum" where
  "fmean w = fdiv (fsum w) (Fin (real (length w)))"

fun is_fin :: "fnum \<Rightarrow> bool" where
  "is_fin (Fin a) = True"
| "is_fin x = False"

fun fin_val :: "fnum \<Rightarrow> real" where
  "fin_val (Fin a) = a"
| "fin_val x = 0"

text \<open>The sample standard deviation of a window (\<open>ddof=1\<close>); NaN when a cell is
  infinite or the window has a single cell.\<close>

definition fstd :: "fnum list \<Rightarrow> fnum" where
  "fstd w =
     (if list_all is_fin w \<and> 1 < length w then
        (let xs = map fin_val w; m = sum_list xs / real (length xs)
         in Fin (sqrt (sum_list (map (\<lambda>x. (x - m)\<^sup>2) xs) / (real (length xs) - 1))))
      else NaN)"

definition fmaximum :: "fnum list \<Rightarrow> fnum" where
  "fmaximum w = (case w of [] \<Rightarrow> NaN | x # xs \<Rightarrow> foldl fmax x xs)"

definition fminimum :: "fnum list \<Rightarrow> fnum" where
  "fminimum w = (case w of [] \<Rightarrow> NaN | x # xs \<Rightarrow> foldl fmin x xs)"

text \<open>\<open>df.max(axis=1)\<close> over a row: the NaN cells are skipped.\<close>

definition row_max :: "fnum list \<Rightarrow> fnum" where
  "row_max row = fmaximum (filter (\<lambda>x. x \<noteq> NaN) row)"

text \<open>\<open>s.cumsum()\<close>: a NaN cell stays NaN and is skipped by the running sum.\<close>

fun cumsum_from :: "fnum \<Rightarrow> column \<Rightarrow> column" where
  "cumsum_from acc [] = []"
| "cumsum_from acc (x # xs) =
     (if x = NaN then NaN # cumsum_from acc xs
      else (let acc = fadd acc x in acc # cumsum_from acc xs))"

definition cumsum :: "column \<Rightarrow> column" where
  "cumsum col = cumsum_from (Fin 0) col"

text \<open>
  \<open>s.ewm(alpha, adjust).mean()\<close>, as pandas computes it: one pass that keeps the
  running weighted mean and the weight \<open>old_wt\<close> of the past. Each step decays the
  weight of the past by \<open>1 - alpha\<close>; the new cell enters with weight 1 when
  \<open>adjust\<close> is set and \<open>alpha\<close> otherwise, and the mean is renormalised by the sum of
  the two weights. With \<open>adjust\<close> the weight of the past accumulates, without it the
  weight is reset to 1. A NaN cell repeats the last mean.
\<close>

fun ewm_loop :: "real \<Rightarrow> bool \<Rightarrow> fnum \<Rightarrow> real \<Rightarrow> column \<Rightarrow> column" where
  "ewm_loop alpha adjust weighted old_wt [] = []"
| "ewm_loop alpha adjust weighted old_wt (cur # vals) =
     (if weighted \<noteq> NaN then
        (if cur \<noteq> NaN then
           (let old_wt = old_wt * (1 - alpha);
                new_wt = (if adjust then 1 else alpha);
                weighted =
                  (if weighted \<noteq> cur
                   then fdiv (fadd (fmul (Fin old_wt) weighted) (fmul (Fin new_wt) cur))
                          (Fin (old_wt + new_wt))
                   else weighted);
                old_wt = (if adjust then old_wt + new_wt else 1)
            in weighted # ewm_loop alpha adjust weighted old_wt vals)
         else weighted # ewm_loop alpha adjust weighted (old_wt * (1 - alpha)) vals)
      else cur # ewm_loop alpha adjust cur old_wt vals)"

definition ewm_mean :: "real \<Rightarrow> bool \<Rightarrow> column \<Rightarrow> column" where
  "ewm_mean alpha adjust vals =
     (case vals of [] \<Rightarrow> [] | v # rest \<Rightarrow> v # ewm_loop alpha adjust v 1 rest)"

text \<open>\<open>ewm(span=n)\<close>: the smoothing factor is \<open>2 / (n + 1)\<close>.\<close>

definition ewm_span :: "nat \<Rightarrow> bool \<Rightarrow> column \<Rightarrow> column" where
  "ewm_span n adjust vals = ewm_mean (2 / (real n + 1)) adjust vals"

subsection \<open>enhanced\_finance\_data.py\<close>

text \<open>
  The methods of \<open>EnhancedFinanceData\<close> take the frame and read columns of it; here
  they take the columns they read, as float64 values: every expression in them starts
  from \<open>shift\<close>, \<open>diff\<close>, \<open>rolling\<close> or \<open>ewm\<close>, and \<open>_calculate_obv\<close> accumulates in
  a series it creates with \<open>dtype=float\<close>, so no integer arithmetic takes place. \<open>_add_technical_indicators\<close> sets
  \<open>data['EMA_n'] = data['Close'].ewm(span=n).mean()\<close> for n = 12, 26, 50, with the
  library's default \<open>adjust=True\<close>.
\<close>

datatype error = KeyError string | IndexError

definition enhanced_EMA :: "nat \<Rightarrow> column \<Rightarrow> column" where
  "enhanced_EMA n close = ewm_span n True close"

text \<open>\<open>_calculate_rsi\<close>, with its locals \<open>gain\<close> and \<open>loss\<close>.\<close>

definition rsi_gain :: "column \<Rightarrow> nat \<Rightarrow> column" where
  "rsi_gain prices window =
     (let delta = diff prices
      in rolling window fmean (where_col delta (map (\<lambda>d. fgt d (Fin 0)) delta) (Fin 0)))"

definition rsi_loss :: "column \<Rightarrow> nat \<Rightarrow> column" where
  "rsi_loss prices window =
     (let delta = diff prices
      in rolling window fmean
           (map fneg (where_col delta (map (\<lambda>d. flt d (Fin 0)) delta) (Fin 0))))"

definition calculate_rsi :: "column \<Rightarrow> nat \<Rightarrow> column" where
  "calculate_rsi prices window =
     (let gain = rsi_gain prices window;
          loss = rsi_loss prices window;
          rs = col_div gain loss
      in map (\<lambda>r. fsub (Fin 100) (fdiv (Fin 100) (fadd (Fin 1) r))) rs)"

text \<open>
  \<open>_calculate_obv\<close>: the series starts as NaN cells, cell 0 is set to the first
  volume (an IndexError on an empty frame), and the loop over \<open>range(1, len(data))\<close>
  fills the rest.
\<close>

definition obv_step :: "column \<Rightarrow> column \<Rightarrow> nat \<Rightarrow> column \<Rightarrow> column" where
  "obv_step close volume i obv =
     (if fgt (close ! i) (close ! (i - 1)) then obv[i := fadd (obv ! (i - 1)) (volume ! i)]
      else if flt (close ! i) (close ! (i - 1)) then obv[i := fsub (obv ! (i - 1)) (volume ! i)]
      else obv[i := obv ! (i - 1)])"


text \<open>\<open>_calculate_pivot_points\<close>: the dictionary it returns has seven fixed keys.\<close>

record pivot_points =
  Pivot :: column
  R1 :: column
  R2 :: column
  R3 :: column
  S1 :: column
  S2 :: column
  S3 :: column

definition calculate_pivot_points :: "column \<Rightarrow> column \<Rightarrow> column \<Rightarrow> pivot_points" where
  "calculate_pivot_points high low close =
     (let prev_high = shift high;
          prev_low = shift low;
          prev_close = shift close;
          pivot = div_by (col_add (col_add prev_high prev_low) prev_close) 3;
          r1 = col_sub (scale 2 pivot) prev_low;
          r2 = col_add pivot (col_sub prev_high prev_low);
          r3 = col_add prev_high (scale 2 (col_sub pivot prev_low));
          s1 = col_sub (scale 2 pivot) prev_high;
          s2 = col_sub pivot (col_sub prev_high prev_low);
          s3 = col_sub prev_low (scale 2 (col_sub prev_high pivot))
      in \<lparr>Pivot = pivot, R1 = r1, R2 = r2, R3 = r3, S1 = s1, S2 = s2, S3 = s3\<rparr>)"

subsection \<open>openbb\_app.py\<close>

text \<open>
  A column of a DataFrame has a dtype. The frames of yfinance hold the prices as
  float64 and Volume as int64; int64 arithmetic wraps around silently. Adding,
  subtracting or multiplying two int64 columns stays in int64, and so does the
  running sum of an int64 column; every other operation the code uses (a float64
  operand, true division, \<open>shift\<close>, \<open>diff\<close>, \<open>rolling\<close>, \<open>ewm\<close>) works on the
  float64 values of the column. The conversion of an int64 cell to float64 is taken
  as exact, as the rest of float arithmetic is.
\<close>

datatype series = Float64 column | Int64 "int list"

definition wrap64 :: "int \<Rightarrow> int" where
  "wrap64 x = (x + 2 ^ 63) mod 2 ^ 64 - 2 ^ 63"

definition floats :: "series \<Rightarrow> column" where
  "floats s = (case s of Float64 c \<Rightarrow> c | Int64 xs \<Rightarrow> map (\<lambda>x. Fin (real_of_int x)) xs)"

definition series_len :: "series \<Rightarrow> nat" where
  "series_len s = (case s of Float64 c \<Rightarrow> length c | Int64 xs \<Rightarrow> length xs)"

fun series_add :: "series \<Rightarrow> series \<Rightarrow> series" where
  "series_add (Int64 a) (Int64 b) = Int64 (map2 (\<lambda>x y. wrap64 (x + y)) a b)"
| "series_add a b = Float64 (col_add (floats a) (floats b))"

fun series_sub :: "series \<Rightarrow> series \<Rightarrow> series" where
  "series_sub (Int64 a) (Int64 b) = Int64 (map2 (\<lambda>x y. wrap64 (x - y)) a b)"
| "series_sub a b = Float64 (col_sub (floats a) (floats b))"

text \<open>
  A DataFrame is its columns in order, by name: \<open>df[k]\<close> raises \<open>KeyError(k)\<close> when
  there is no such column, \<open>df[k] = v\<close> replaces the column or appends it. Both
  functions are straight-line code of the form \<open>df[target] = expression\<close>; each line
  is a step: the target, the columns the expression reads from the frame in the order
  it reads them, and the expression as a function of those columns. A local variable
  (\<open>delta\<close>, \<open>bb_std\<close>, \<open>low_14\<close>, \<open>typical_price\<close>, ...) is folded into the steps
  that use it; the columns the locals are computed from (Close, High, Low, Volume) are
  never assigned to, so the value is the same. The frame is mutated in place: when a
  step raises, the columns set before it stay.
\<close>

type_synonym frame = "(string \<times> series) list"

datatype step = Assign string "string list" "series list \<Rightarrow> series"

fun getcols :: "frame \<Rightarrow> string list \<Rightarrow> error + series list" where
  "getcols df [] = Inr []"
| "getcols df (k # ks) =
     (case map_of df k of
        None \<Rightarrow> Inl (KeyError k)
      | Some c \<Rightarrow> (case getcols df ks of Inl e \<Rightarrow> Inl e | Inr cs \<Rightarrow> Inr (c # cs)))"

fun exec :: "step list \<Rightarrow> frame \<Rightarrow> error option \<times> frame" where
  "exec [] df = (None, df)"
| "exec (Assign target reads expr # rest) df =
     (case getcols df reads of
        Inl e \<Rightarrow> (Some e, df)
      | Inr cs \<Rightarrow> exec rest (AList.update target (expr cs) df))"

text \<open>\<open>df.empty\<close>: no column, or no row.\<close>

definition empty_frame :: "frame \<Rightarrow> bool" where
  "empty_frame df = (case df of [] \<Rightarrow> True | (k, c) # _ \<Rightarrow> series_len c = 0)"

text \<open>The float64 values of the k-th column a step has read.\<close>

definition fcol :: "series list \<Rightarrow> nat \<Rightarrow> column" where
  "fcol s k = floats (s ! k)"

text \<open>The expression of the RSI lines, the same in both functions.\<close>

definition rsi_expr :: "column \<Rightarrow> column" where
  "rsi_expr close =
     (let delta = diff close;
          gain = rolling 14 fmean (where_col delta (map (\<lambda>d. fgt d (Fin 0)) delta) (Fin 0));
          loss = rolling 14 fmean
                   (map fneg (where_col delta (map (\<lambda>d. flt d (Fin 0)) delta) (Fin 0)));
          rs = col_div gain loss
      in map (\<lambda>r. fsub (Fin 100) (fdiv (Fin 100) (fadd (Fin 1) r))) rs)"

text \<open>
  The OBV line of \<open>calculate_technical_indicators\<close>:
  \<open>(Volume * (~Close.diff().isna()).astype(int) * Close.diff().fillna(0).apply(sign)).cumsum()\<close>.
  The mask and the signs are int64 columns. With a float64 Volume the products and the
  running sum are float64 (\<open>obv_expr\<close>, where the mask and the signs appear as the
  float cells 0, 1 and -1); with the int64 Volume of yfinance they are int64 and wrap
  around (\<open>obv_int64\<close>).
\<close>

definition notna_int :: "column \<Rightarrow> column" where
  "notna_int col = map (\<lambda>x. if x = NaN then Fin 0 else Fin 1) col"

definition fillna :: "fnum \<Rightarrow> column \<Rightarrow> column" where
  "fillna v col = map (\<lambda>x. if x = NaN then v else x) col"

definition sign_lambda :: "fnum \<Rightarrow> fnum" where
  "sign_lambda x = (if fgt x (Fin 0) then Fin 1 else if flt x (Fin 0) then Fin (- 1) else Fin 0)"

definition obv_expr :: "column \<Rightarrow> column \<Rightarrow> column" where
  "obv_expr volume close =
     cumsum (col_mul (col_mul volume (notna_int (diff close)))
                  (map sign_lambda (fillna (Fin 0) (diff close))))"

definition notna_int64 :: "column \<Rightarrow> int list" where
  "notna_int64 col = map (\<lambda>x. if x = NaN then 0 else 1) col"

definition sign_lambda_int :: "fnum \<Rightarrow> int" where
  "sign_lambda_int x = (if fgt x (Fin 0) then 1 else if flt x (Fin 0) then - 1 else 0)"

definition mul64 :: "int list \<Rightarrow> int list \<Rightarrow> int list" where
  "mul64 a b = map2 (\<lambda>x y. wrap64 (x * y)) a b"

fun cumsum64_from :: "int \<Rightarrow> int list \<Rightarrow> int list" where
  "cumsum64_from acc [] = []"
| "cumsum64_from acc (x # xs) = (let acc = wrap64 (acc + x) in acc # cumsum64_from acc xs)"

definition cumsum64 :: "int list \<Rightarrow> int list" where
  "cumsum64 xs = cumsum64_from 0 xs"

definition obv_int64 :: "int list \<Rightarrow> column \<Rightarrow> int list" where
  "obv_int64 volume close =
     cumsum64 (mul64 (mul64 volume (notna_int64 (diff close)))
                     (map sign_lambda_int (fillna (Fin 0) (diff close))))"

definition obv_line :: "series \<Rightarrow> series \<Rightarrow> series" where
  "obv_line volume close =
     (case volume of
        Int64 v \<Rightarrow> Int64 (obv_int64 v (floats close))
      | Float64 v \<Rightarrow> Float64 (obv_expr v (floats close)))"

definition typical_price :: "series \<Rightarrow> series \<Rightarrow> series \<Rightarrow> column" where
  "typical_price high low close = div_by (floats (series_add (series_add high low) close)) 3"

definition true_range :: "series \<Rightarrow> series \<Rightarrow> series \<Rightarrow> column" where
  "true_range high low close =
     (let high_low = floats (series_sub high low);
          high_close = map fabs (col_sub (floats high) (shift (floats close)));
          low_close = map fabs (col_sub (floats low) (shift (floats close)))
      in map (\<lambda>(a, b, c). row_max [a, b, c]) (zip high_low (zip high_close low_close)))"

definition mfi_expr :: "series \<Rightarrow> series \<Rightarrow> series \<Rightarrow> series \<Rightarrow> column" where
  "mfi_expr high low close volume =
     (let tp = typical_price high low close;
          money_flow = col_mul tp (floats volume);
          positive_flow = where_col money_flow (map2 fgt tp (shift tp)) (Fin 0);
          negative_flow = where_col money_flow (map2 flt tp (shift tp)) (Fin 0);
          positive_flow_sum = rolling 14 fsum positive_flow;
          negative_flow_sum = rolling 14 fsum negative_flow;
          money_ratio = col_div positive_flow_sum negative_flow_sum
      in map (\<lambda>r. fsub (Fin 100) (fdiv (Fin 100) (fadd (Fin 1) r))) money_ratio)"

definition calculate_steps :: "step list" where
  "calculate_steps =
    [Assign ''SMA_20'' [''Close''] (\<lambda>s. Float64 (rolling 20 fmean (fcol s 0))),
     Assign ''SMA_50'' [''Close''] (\<lambda>s. Float64 (rolling 50 fmean (fcol s 0))),
     Assign ''SMA_200'' [''Close''] (\<lambda>s. Float64 (rolling 200 fmean (fcol s 0))),
     Assign ''EMA_12'' [''Close''] (\<lambda>s. Float64 (ewm_span 12 False (fcol s 0))),
     Assign ''EMA_26'' [''Close''] (\<lambda>s. Float64 (ewm_span 26 False (fcol s 0))),
     Assign ''EMA_50'' [''Close''] (\<lambda>s. Float64 (ewm_span 50 False (fcol s 0))),
     Assign ''RSI'' [''Close''] (\<lambda>s. Float64 (rsi_expr (fcol s 0))),
     Assign ''MACD'' [''EMA_12'', ''EMA_26''] (\<lambda>s. Float64 (col_sub (fcol s 0) (fcol s 1))),
     Assign ''MACD_Signal'' [''MACD''] (\<lambda>s. Float64 (ewm_span 9 False (fcol s 0))),
     Assign ''MACD_Histogram'' [''MACD'', ''MACD_Signal'']
       (\<lambda>s. Float64 (col_sub (fcol s 0) (fcol s 1))),
     Assign ''BB_Middle'' [''Close''] (\<lambda>s. Float64 (rolling 20 fmean (fcol s 0))),
     Assign ''BB_Upper'' [''Close'', ''BB_Middle'']
       (\<lambda>s. Float64 (col_add (fcol s 1) (scale 2 (rolling 20 fstd (fcol s 0))))),
     Assign ''BB_Lower'' [''Close'', ''BB_Middle'']
       (\<lambda>s. Float64 (col_sub (fcol s 1) (scale 2 (rolling 20 fstd (fcol s 0))))),
     Assign ''BB_Width'' [''BB_Upper'', ''BB_Lower'']
       (\<lambda>s. Float64 (col_sub (fcol s 0) (fcol s 1))),
     Assign ''BB_Percent'' [''Close'', ''BB_Lower'', ''BB_Upper'']
       (\<lambda>s. Float64 (col_div (col_sub (fcol s 0) (fcol s 1)) (col_sub (fcol s 2) (fcol s 1)))),
     Assign ''Stoch_K'' [''Low'', ''High'', ''Close'']
       (\<lambda>s. let low_14 = rolling 14 fminimum (fcol s 0);
                high_14 = rolling 14 fmaximum (fcol s 1)
            in Float64 (scale 100 (col_div (col_sub (fcol s 2) low_14) (col_sub high_14 low_14)))),
     Assign ''Stoch_D'' [''Stoch_K''] (\<lambda>s. Float64 (rolling 3 fmean (fcol s 0))),
     Assign ''ATR'' [''High'', ''Low'', ''Close'']
       (\<lambda>s. Float64 (rolling 14 fmean (true_range (s ! 0) (s ! 1) (s ! 2)))),
     Assign ''Volume_MA'' [''Volume''] (\<lambda>s. Float64 (rolling 20 fmean (fcol s 0))),
     Assign ''OBV'' [''Volume'', ''Close''] (\<lambda>s. obv_line (s ! 0) (s ! 1)),
     Assign ''MFI'' [''High'', ''Low'', ''Close'', ''Volume'']
       (\<lambda>s. Float64 (mfi_expr (s ! 0) (s ! 1) (s ! 2) (s ! 3))),
     Assign ''Resistance'' [''High''] (\<lambda>s. Float64 (rolling 20 fmaximum (fcol s 0))),
     Assign ''Support'' [''Low''] (\<lambda>s. Float64 (rolling 20 fminimum (fcol s 0))),
     Assign ''Pivot'' [''High'', ''Low'', ''Close'']
       (\<lambda>s. Float64 (div_by (floats (series_add (series_add (s ! 0) (s ! 1)) (s ! 2))) 3)),
     Assign ''R1'' [''Pivot'', ''Low''] (\<lambda>s. Float64 (col_sub (scale 2 (fcol s 0)) (fcol s 1))),
     Assign ''S1'' [''Pivot'', ''High''] (\<lambda>s. Float64 (col_sub (scale 2 (fcol s 0)) (fcol s 1))),
     Assign ''R2'' [''Pivot'', ''High'', ''Low'']
       (\<lambda>s. Float64 (col_add (fcol s 0) (floats (series_sub (s ! 1) (s ! 2))))),
     Assign ''S2'' [''Pivot'', ''High'', ''Low'']
       (\<lambda>s. Float64 (col_sub (fcol s 0) (floats (series_sub (s ! 1) (s ! 2)))))]"

text \<open>\<open>calculate_technical_indicators\<close>: an empty frame is returned as it is; an
  exception of a step is not caught.\<close>

definition calculate_technical_indicators :: "frame \<Rightarrow> error + frame" where
  "calculate_technical_indicators df =
     (if empty_frame df then Inr df
      else (case exec calculate_steps df of
              (None, df') \<Rightarrow> Inr df'
            | (Some e, df') \<Rightarrow> Inl e))"

definition add_steps :: "step list" where
  "add_steps =
    [Assign ''SMA_20'' [''Close''] (\<lambda>s. Float64 (rolling 20 fmean (fcol s 0))),
     Assign ''SMA_50'' [''Close''] (\<lambda>s. Float64 (rolling 50 fmean (fcol s 0))),
     Assign ''SMA_200'' [''Close''] (\<lambda>s. Float64 (rolling 200 fmean (fcol s 0))),
     Assign ''EMA_12'' [''Close''] (\<lambda>s. Float64 (ewm_span 12 True (fcol s 0))),
     Assign ''EMA_26'' [''Close''] (\<lambda>s. Float64 (ewm_span 26 True (fcol s 0))),
     Assign ''MACD'' [''EMA_12'', ''EMA_26''] (\<lambda>s. Float64 (col_sub (fcol s 0) (fcol s 1))),
     Assign ''MACD_Signal'' [''MACD''] (\<lambda>s. Float64 (ewm_span 9 True (fcol s 0))),
     Assign ''MACD_Histogram'' [''MACD'', ''MACD_Signal'']
       (\<lambda>s. Float64 (col_sub (fcol s 0) (fcol s 1))),
     Assign ''RSI'' [''Close''] (\<lambda>s. Float64 (rsi_expr (fcol s 0))),
     Assign ''BB_Middle'' [''Close''] (\<lambda>s. Float64 (rolling 20 fmean (fcol s 0))),
     Assign ''BB_Upper'' [''Close'', ''BB_Middle'']
       (\<lambda>s. Float64 (col_add (fcol s 1) (scale 2 (rolling 20 fstd (fcol s 0))))),
     Assign ''BB_Lower'' [''Close'', ''BB_Middle'']
       (\<lambda>s. Float64 (col_sub (fcol s 1) (scale 2 (rolling 20 fstd (fcol s 0)))))]"

definition add_volume_steps :: "step list" where
  "add_volume_steps =
    [Assign ''Volume_SMA'' [''Volume''] (\<lambda>s. Float64 (rolling 20 fmean (fcol s 0))),
     Assign ''Volume_Ratio'' [''Volume'', ''Volume_SMA'']
       (\<lambda>s. Float64 (col_div (fcol s 0) (fcol s 1)))]"

text \<open>
  \<open>add_technical_indicators\<close>: the whole body is inside \<open>try\<close>; the handler shows a
  warning (the second component) and returns the frame as it is by then. The volume
  lines run only when the frame has a Volume column.
\<close>

definition add_technical_indicators :: "frame \<Rightarrow> frame \<times> error option" where
  "add_technical_indicators df =
     (case exec add_steps df of
        (Some e, df') \<Rightarrow> (df', Some e)
      | (None, df') \<Rightarrow>
          (if map_of df' ''Volume'' \<noteq> None
           then (case exec add_volume_steps df' of (w, df'') \<Rightarrow> (df'', w))
           else (df', None)))"

text \<open>A column of the frame a call returned, if it returned one.\<close>

definition column_of :: "error + frame \<Rightarrow> string \<Rightarrow> series option" where
  "column_of r k = (case r of Inl e \<Rightarrow> None | Inr df \<Rightarrow> map_of df k)"

text \<open>Frames used as examples below, with the dtypes of yfinance: two bars with all
  columns, three bars with very large volumes, and frames that lack a column.\<close>

definition two_bars :: frame where
  "two_bars =
    [(''Open'', Float64 [Fin 2, Fin 5]), (''High'', Float64 [Fin 3, Fin 6]),
     (''Low'', Float64 [Fin 1, Fin 4]), (''Close'', Float64 [Fin 2, Fin 5]),
     (''Volume'', Int64 [100, 50])]"

definition huge_volume :: frame where
  "huge_volume =
    [(''Open'', Float64 [Fin 1, Fin 2, Fin 3]), (''High'', Float64 [Fin 1, Fin 2, Fin 3]),
     (''Low'', Float64 [Fin 1, Fin 2, Fin 3]), (''Close'', Float64 [Fin 1, Fin 2, Fin 3]),
     (''Volume'', Int64 [2 ^ 62, 2 ^ 62, 2 ^ 62])]"

definition no_low :: frame where
  "no_low = [(''Close'', Float64 [Fin 2]), (''High'', Float64 [Fin 3]), (''Volume'', Int64 [100])]"

definition close_only :: frame where
  "close_only = [(''Close'', Float64 [Fin 2])]"

definition rising :: "real list" where
  "rising = [1, 2, 3, 4, 5, 6, 7, 8, 9, 10, 11, 12, 13, 14, 15]"

definition zigzag :: "real list" where
  "zigzag = [1, 2, 1, 2, 1, 2, 1, 2, 1, 2, 1, 2, 1, 2, 1]"

subsection \<open>The two start-up behaviours of an EMA, in the words of the spec\<close>

text \<open>
  For comparison with \<open>ewm_mean\<close>: the exponentially-weighted mean of the closes
  0..i with weight \<open>(1 - \<alpha>) ^ (i - k)\<close> on close k, and the recursion seeded with the
  first close as a plain initial value, \<open>e\<^sub>0 = c\<^sub>0\<close> and
  \<open>e\<^sub>i = (1 - \<alpha>) * e\<^sub>i\<^sub>-\<^sub>1 + \<alpha> * c\<^sub>i\<close>.
\<close>

definition weighted_mean :: "real \<Rightarrow> real list \<Rightarrow> nat \<Rightarrow> real" where
  "weighted_mean \<alpha> cs i =
     (\<Sum>k\<le>i. (1 - \<alpha>) ^ (i - k) * cs ! k) / (\<Sum>k\<le>i. (1 - \<alpha>) ^ (i - k))"

fun seeded_from :: "real \<Rightarrow> real \<Rightarrow> real list \<Rightarrow> real list" where
  "seeded_from \<alpha> e [] = []"
| "seeded_from \<alpha> e (c # cs) = ((1 - \<alpha>) * e + \<alpha> * c) # seeded_from \<alpha> ((1 - \<alpha>) * e + \<alpha> * c) cs"

definition seeded_ema :: "real \<Rightarrow> real list \<Rightarrow> real list" where
  "seeded_ema \<alpha> cs = (case cs of [] \<Rightarrow> [] | c # rest \<Rightarrow> c # seeded_from \<alpha> c rest)"


section \<open>Properties of the Sector Scorer\<close>

lemmas block_defs = if_truthy_def if_not_None_def get_num_def get_str_def
lemmas init_simps = Let_def init_def SECTOR_BENCHMARKS_def DEFAULT_BENCHMARK_def mk_benchmark_def
lemmas point_defs = pe_points_def pb_points_def peg_points_def forward_pe_points_def
  roe_points_def roa_points_def debt_equity_points_def margin_points_def fcf_points_def
  revenue_growth_points_def earnings_growth_points_def gross_margin_points_def
  perf_points_def moving_average_points_def target_points_def institutions_points_def
  short_points_def

lemma data_init: "data (init d) = d"
  by (simp add: init_def Let_def)

lemma if_truthy_None [simp]: "if_truthy None body = []"
  by (simp add: if_truthy_def)

lemma if_truthy_zero [simp]: "if_truthy (Some 0) body = []"
  by (simp add: if_truthy_def)

lemma if_truthy_nested [simp]: "if_truthy v (\<lambda>x. []) = []"
  by (simp add: if_truthy_def split: option.splits)

lemma if_not_None_None [simp]: "if_not_None None body = []"
  by (simp add: if_not_None_def)

subsection \<open>The worked scenario\<close>

lemma lower_strong_buy: "lower ''strong_buy'' = ''strong_buy''"
  by code_simp

lemma scenario_valuation_points: "valuation_points (init scenario) = [80, 80, 90]"
  by (simp add: init_simps valuation_points_def pe_points_def pb_points_def peg_points_def
      forward_pe_points_def block_defs scenario_def)

text \<open>
  C1, as the spec states it: the valuation points of the scenario are 80, 60 and 90 and
  the score is their mean 230/3. The code does not give that: price-to-book 5 is below
  0.7 times the sector's \<open>pb_avg\<close> 8 (that is 5.6), so the first branch of the P/B
  block fires and the point is 80, not 60.
\<close>

theorem scenario_valuation_not_230_thirds:
  "analyze_valuation (init scenario) \<noteq> (80 + 60 + 90) / 3"
  by (simp add: analyze_valuation_def scenario_valuation_points score_of_def)

text \<open>
  C1, amended: for the scenario the valuation points are exactly 80 (P/E 20 below
  \<open>pe_good\<close> 25), 80 (P/B 5 below 0.7 times \<open>pb_avg\<close> 8) and 90 (PEG 0.8 below 1),
  the forward P/E being absent and skipped, and the valuation score is their mean
  250/3, about 83.33.
\<close>

theorem scenario_valuation:
  "valuation_points (init scenario) = [80, 80, 90] \<and>
   nums scenario ''forwardPE'' = None \<and>
   analyze_valuation (init scenario) = (80 + 80 + 90) / 3"
  by (simp add: analyze_valuation_def scenario_valuation_points score_of_def)
     (simp add: scenario_def)

subsection \<open>Ranges of the scores\<close>

lemma score_of_bounds:
  assumes "\<forall>p\<in>set ps. lo \<le> p \<and> p \<le> hi" and "lo \<le> 50" and "50 \<le> hi"
  shows "lo \<le> score_of ps \<and> score_of ps \<le> hi"
proof (cases "ps = []")
  case True
  with assms show ?thesis by (simp add: score_of_def)
next
  case False
  then have n: "0 < real (length ps)" by simp
  have lo: "lo * real (length ps) \<le> sum_list ps"
    using assms(1) by (induction ps) (auto simp: algebra_simps)
  have hi: "sum_list ps \<le> hi * real (length ps)"
    using assms(1) by (induction ps) (auto simp: algebra_simps)
  from n lo hi False show ?thesis
    by (simp add: score_of_def pos_le_divide_eq pos_divide_le_eq)
qed

lemma if_truthy_range:
  assumes "\<And>x. \<forall>p\<in>set (body x). P p"
  shows "\<forall>p\<in>set (if_truthy v body). P p"
  using assms by (auto simp: if_truthy_def split: option.splits)

lemma if_not_None_range:
  assumes "\<And>x. \<forall>p\<in>set (body x). P p"
  shows "\<forall>p\<in>set (if_not_None v body). P p"
  using assms by (auto simp: if_not_None_def split: option.splits)

lemma pe_points_range: "\<forall>p\<in>set (pe_points self). 0 \<le> p \<and> p \<le> 95"
  unfolding pe_points_def by (intro if_truthy_range if_not_None_range) (simp add: Let_def)

lemma pb_points_range: "\<forall>p\<in>set (pb_points self). 0 \<le> p \<and> p \<le> 95"
  unfolding pb_points_def by (intro if_truthy_range if_not_None_range) (simp add: Let_def)

lemma peg_points_range: "\<forall>p\<in>set (peg_points self). 0 \<le> p \<and> p \<le> 95"
  unfolding peg_points_def by (intro if_truthy_range if_not_None_range) (simp add: Let_def)

lemma forward_pe_points_range: "\<forall>p\<in>set (forward_pe_points self). 0 \<le> p \<and> p \<le> 95"
  unfolding forward_pe_points_def by (intro if_truthy_range if_not_None_range) (simp add: Let_def)

lemma roe_points_range: "\<forall>p\<in>set (roe_points self). 0 \<le> p \<and> p \<le> 95"
  unfolding roe_points_def by (intro if_truthy_range if_not_None_range) (simp add: Let_def)

lemma roa_points_range: "\<forall>p\<in>set (roa_points self). 0 \<le> p \<and> p \<le> 95"
  unfolding roa_points_def by (intro if_truthy_range if_not_None_range) (simp add: Let_def)

lemma debt_equity_points_range: "\<forall>p\<in>set (debt_equity_points self). 0 \<le> p \<and> p \<le> 95"
  unfolding debt_equity_points_def by (intro if_truthy_range if_not_None_range) (simp add: Let_def)

lemma margin_points_range: "\<forall>p\<in>set (margin_points self). 0 \<le> p \<and> p \<le> 95"
  unfolding margin_points_def by (intro if_truthy_range if_not_None_range) (simp add: Let_def)

lemma fcf_points_range: "\<forall>p\<in>set (fcf_points self). 0 \<le> p \<and> p \<le> 95"
  unfolding fcf_points_def by (intro if_truthy_range if_not_None_range) (simp add: Let_def)

lemma revenue_growth_points_range: "\<forall>p\<in>set (revenue_growth_points self). 0 \<le> p \<and> p \<le> 95"
  unfolding revenue_growth_points_def by (intro if_truthy_range if_not_None_range) (simp add: Let_def)

lemma earnings_growth_points_range: "\<forall>p\<in>set (earnings_growth_points self). 0 \<le> p \<and> p \<le> 95"
  unfolding earnings_growth_points_def by (intro if_truthy_range if_not_None_range) (simp add: Let_def)

lemma gross_margin_points_range: "\<forall>p\<in>set (gross_margin_points self). 0 \<le> p \<and> p \<le> 95"
  unfolding gross_margin_points_def by (intro if_truthy_range if_not_None_range) (simp add: Let_def)

lemma target_points_range: "\<forall>p\<in>set (target_points self). 0 \<le> p \<and> p \<le> 95"
  unfolding target_points_def by (intro if_truthy_range if_not_None_range) (simp add: Let_def)

lemma institutions_points_range: "\<forall>p\<in>set (institutions_points self). 0 \<le> p \<and> p \<le> 95"
  unfolding institutions_points_def by (intro if_truthy_range if_not_None_range) (simp add: Let_def)

lemma short_points_range: "\<forall>p\<in>set (short_points self). 0 \<le> p \<and> p \<le> 95"
  unfolding short_points_def by (intro if_truthy_range if_not_None_range) (simp add: Let_def)

lemma rec_map_range: "map_of rec_map k = Some p \<Longrightarrow> 0 \<le> p \<and> p \<le> 95"
  by (auto simp: rec_map_def split: if_splits)

lemma recommendation_points_range:
  "\<forall>p\<in>set (recommendation_points self). 0 \<le> p \<and> p \<le> 95"
  by (auto simp: recommendation_points_def Let_def split: option.splits dest: rec_map_range)

lemma perf_points_range:
  "0 \<le> w \<Longrightarrow> w \<le> 1.2 \<Longrightarrow> \<forall>p\<in>set (perf_points v w). 0 \<le> p \<and> p \<le> 108"
  unfolding perf_points_def by (intro if_not_None_range) simp

lemma moving_average_points_range:
  "\<forall>p\<in>set (moving_average_points self). 0 \<le> p \<and> p \<le> 108"
  unfolding moving_average_points_def by (intro if_truthy_range) simp

lemma valuation_points_range: "\<forall>p\<in>set (valuation_points self). 0 \<le> p \<and> p \<le> 95"
  using pe_points_range pb_points_range peg_points_range forward_pe_points_range
  by (simp add: valuation_points_def ball_Un)

lemma financial_health_points_range:
  "\<forall>p\<in>set (financial_health_points self). 0 \<le> p \<and> p \<le> 95"
  using roe_points_range roa_points_range debt_equity_points_range margin_points_range
    fcf_points_range
  by (simp add: financial_health_points_def ball_Un)

lemma growth_points_range: "\<forall>p\<in>set (growth_points self). 0 \<le> p \<and> p \<le> 95"
  using revenue_growth_points_range earnings_growth_points_range gross_margin_points_range
  by (simp add: growth_points_def ball_Un)

lemma sentiment_points_range: "\<forall>p\<in>set (sentiment_points self). 0 \<le> p \<and> p \<le> 95"
  using recommendation_points_range target_points_range institutions_points_range
    short_points_range
  by (simp add: sentiment_points_def ball_Un)

lemma momentum_points_range: "\<forall>p\<in>set (momentum_points self). 0 \<le> p \<and> p \<le> 108"
  using perf_points_range [of "1.2"] perf_points_range [of 1] perf_points_range [of "0.8"]
    moving_average_points_range
  by (simp add: momentum_points_def ball_Un)

lemma category_scores_bounded:
  "0 \<le> analyze_valuation self \<and> analyze_valuation self \<le> 95 \<and>
   0 \<le> analyze_financial_health self \<and> analyze_financial_health self \<le> 95 \<and>
   0 \<le> analyze_growth self \<and> analyze_growth self \<le> 95 \<and>
   0 \<le> analyze_sentiment self \<and> analyze_sentiment self \<le> 95 \<and>
   0 \<le> analyze_momentum self \<and> analyze_momentum self \<le> 108"
  using score_of_bounds [OF valuation_points_range, of self]
    score_of_bounds [OF financial_health_points_range, of self]
    score_of_bounds [OF growth_points_range, of self]
    score_of_bounds [OF sentiment_points_range, of self]
    score_of_bounds [OF momentum_points_range, of self]
  by (simp add: analyze_valuation_def analyze_financial_health_def analyze_growth_def
      analyze_sentiment_def analyze_momentum_def)

lemma overall_score_bounded:
  "0 \<le> overall_score (analyze self) \<and> overall_score (analyze self) \<le> 100"
  using category_scores_bounded [of self] by (simp add: analyze_def Let_def)

text \<open>
  C2: each of the five category scores lies in [0,100]. The docstring of
  \<open>_analyze_momentum\<close> promises 0-100, but the function multiplies each performance
  point by its weight (1.2, 1.0, 0.8) and then divides by the number of points, not by
  the sum of the weights: with only a one-week performance of 11 per cent the momentum
  score is 90 * 1.2 = 108. (The other four categories and the composite score do stay
  in range: \<open>category_scores_bounded\<close>, \<open>overall_score_bounded\<close>.)
\<close>

theorem momentum_score_above_100:
  "momentum_score (analyze (init momentum_example)) = 108"
  by (simp add: analyze_def analyze_momentum_def momentum_points_def perf_points_def
      moving_average_points_def block_defs init_def momentum_example_def score_of_def Let_def)

subsection \<open>Absent metrics and zero metrics\<close>

lemma absent_no_point:
  "\<forall>(k, block)\<in>set (truthy_guarded @ none_guarded).
      get_num self k = None \<longrightarrow> block self = []"
  by (simp add: truthy_guarded_def none_guarded_def point_defs)

lemma zero_truthy_no_point:
  "\<forall>(k, block)\<in>set truthy_guarded. get_num self k = Some 0 \<longrightarrow> block self = []"
  by (simp add: truthy_guarded_def point_defs)

lemma zero_none_guarded_point:
  "\<forall>(k, block)\<in>set none_guarded. get_num self k = Some 0 \<longrightarrow> length (block self) = 1"
  by (simp add: none_guarded_def point_defs if_not_None_def Let_def)

lemma recommendation_absent:
  "strs (data self) ''recommendationKey'' = None \<Longrightarrow> recommendation_points self = []"
  by (simp add: recommendation_points_def get_str_def)

text \<open>
  C3, as stated, fails on its second half: a metric that is present with value 0 is
  scored. The free-cash-flow block is guarded by truthiness (\<open>if fcf:\<close>), so a free
  cash flow of 0 appends no point; in the example only debt/equity contributes.
\<close>

theorem zero_metric_not_scored:
  "nums zero_example ''freeCashflow'' = Some 0 \<and> fcf_points (init zero_example) = [] \<and>
   financial_health_points (init zero_example) = [90]"
  by (simp add: financial_health_points_def point_defs block_defs init_simps zero_example_def)

text \<open>
  C3, amended: a metric absent from the mapping contributes no point to its category.
  A metric present with value 0 contributes a point when it is debtToEquity or one of
  performance_1w, performance_1m, performance_3m (tested with \<open>is not None\<close>); every
  other numeric metric is tested by truthiness, so there a value of 0 contributes no
  point, as an absent one.
\<close>

theorem metric_absent_or_zero:
  "(\<forall>(k, block)\<in>set (truthy_guarded @ none_guarded).
      nums d k = None \<longrightarrow> block (init d) = []) \<and>
   (strs d ''recommendationKey'' = None \<longrightarrow> recommendation_points (init d) = []) \<and>
   (\<forall>(k, block)\<in>set none_guarded. nums d k = Some 0 \<longrightarrow> length (block (init d)) = 1) \<and>
   (\<forall>(k, block)\<in>set truthy_guarded. nums d k = Some 0 \<longrightarrow> block (init d) = [])"
  using absent_no_point [of "init d"] zero_truthy_no_point [of "init d"]
    zero_none_guarded_point [of "init d"] recommendation_absent [of "init d"]
  by (simp add: get_num_def data_init)

theorem metric_absent_or_zero_witness:
  "nums zero_example ''trailingPE'' = None \<and> pe_points (init zero_example) = [] \<and>
   strs zero_example ''recommendationKey'' = None \<and>
   recommendation_points (init zero_example) = [] \<and>
   nums zero_example ''debtToEquity'' = Some 0 \<and>
   length (debt_equity_points (init zero_example)) = 1 \<and>
   nums zero_example ''freeCashflow'' = Some 0 \<and> fcf_points (init zero_example) = []"
  using metric_absent_or_zero [of zero_example]
  by (simp add: truthy_guarded_def none_guarded_def zero_example_def)

subsection \<open>Recommendation thresholds\<close>

text \<open>
  C9: the recommendation is Strong Buy iff the score is at least 75, Buy iff it is in
  [60,75), Hold iff in [40,60), Sell iff in [25,40), Strong Sell iff below 25; each
  threshold is inclusive at its lower bound.
\<close>

theorem get_recommendation_thresholds:
  "(get_recommendation s = STRONG_BUY \<longleftrightarrow> s \<ge> 75) \<and>
   (get_recommendation s = BUY \<longleftrightarrow> 60 \<le> s \<and> s < 75) \<and>
   (get_recommendation s = HOLD \<longleftrightarrow> 40 \<le> s \<and> s < 60) \<and>
   (get_recommendation s = SELL \<longleftrightarrow> 25 \<le> s \<and> s < 40) \<and>
   (get_recommendation s = STRONG_SELL \<longleftrightarrow> s < 25) \<and>
   get_recommendation 75 = STRONG_BUY \<and> get_recommendation 60 = BUY"
  by (auto simp: get_recommendation_def)

subsection \<open>A mapping with no scored metric\<close>

lemma no_metric_no_points:
  assumes "\<forall>k\<in>set scored_metrics. nums d k = None"
    and "strs d ''recommendationKey'' = None"
  shows "valuation_points (init d) = []" "financial_health_points (init d) = []"
    "growth_points (init d) = []" "momentum_points (init d) = []"
    "sentiment_points (init d) = []"
  using assms
  by (simp_all add: scored_metrics_def truthy_guarded_def none_guarded_def
      valuation_points_def financial_health_points_def growth_points_def momentum_points_def
      sentiment_points_def point_defs recommendation_points_def get_str_def get_num_def data_init)

text \<open>
  C10: for a fundamentals mapping with none of the scored metrics (it may hold a
  sector), each of the five category scores is exactly 50 and the composite overall
  score is exactly 50.
\<close>

theorem neutral_without_metrics:
  assumes "\<forall>k\<in>set scored_metrics. nums d k = None"
    and "strs d ''recommendationKey'' = None"
  shows "valuation_score (analyze (init d)) = 50 \<and>
         financial_health_score (analyze (init d)) = 50 \<and>
         growth_score (analyze (init d)) = 50 \<and>
         momentum_score (analyze (init d)) = 50 \<and>
         sentiment_score (analyze (init d)) = 50 \<and>
         overall_score (analyze (init d)) = 50"
  using no_metric_no_points [OF assms]
  by (simp add: analyze_def Let_def analyze_valuation_def analyze_financial_health_def
      analyze_growth_def analyze_momentum_def analyze_sentiment_def score_of_def)

theorem neutral_without_metrics_witness:
  "list_all (\<lambda>k. nums sector_only k = None) scored_metrics \<and>
   strs sector_only ''recommendationKey'' = None \<and>
   strs sector_only ''sector'' = Some ''Technology'' \<and>
   valuation_score (analyze (init sector_only)) = 50 \<and>
   financial_health_score (analyze (init sector_only)) = 50 \<and>
   growth_score (analyze (init sector_only)) = 50 \<and>
   momentum_score (analyze (init sector_only)) = 50 \<and>
   sentiment_score (analyze (init sector_only)) = 50 \<and>
   overall_score (analyze (init sector_only)) = 50"
proof -
  have h1: "\<forall>k\<in>set scored_metrics. nums sector_only k = None"
    by (simp add: sector_only_def)
  have h2: "strs sector_only ''recommendationKey'' = None"
    by (simp add: sector_only_def)
  have h3: "strs sector_only ''sector'' = Some ''Technology''"
    by (simp add: sector_only_def)
  show ?thesis using neutral_without_metrics [OF h1 h2] h1 h2 h3 by (simp add: list_all_iff)
qed

section \<open>Properties of the Indicator Engine\<close>

subsection \<open>Columns\<close>

lemma length_shift [simp]: "length (shift col) = length col"
  by (cases col) (simp_all add: shift_def)

lemma shift_eq: "col \<noteq> [] \<Longrightarrow> shift col = NaN # butlast col"
  by (cases col) (simp_all add: shift_def)

lemma shift_nth:
  assumes "0 < i" and "i < length col"
  shows "shift col ! i = col ! (i - 1)"
proof -
  from assms obtain n where n: "i = Suc n" by (cases i) auto
  from assms have ne: "col \<noteq> []" by auto
  from assms n have "n < length (butlast col)" by simp
  then have "butlast col ! n = col ! n" by (rule nth_butlast)
  with n ne show ?thesis by (simp add: shift_eq)
qed

lemma shift_0: "col \<noteq> [] \<Longrightarrow> shift col ! 0 = NaN"
  by (simp add: shift_eq)

lemma length_col_ops [simp]:
  "length (col_add a b) = min (length a) (length b)"
  "length (col_sub a b) = min (length a) (length b)"
  "length (col_mul a b) = min (length a) (length b)"
  "length (col_div a b) = min (length a) (length b)"
  "length (scale k a) = length a" "length (div_by a k) = length a"
  by (simp_all add: col_add_def col_sub_def col_mul_def col_div_def scale_def div_by_def)

lemma nth_col_ops:
  "i < length a \<Longrightarrow> i < length b \<Longrightarrow> col_add a b ! i = fadd (a ! i) (b ! i)"
  "i < length a \<Longrightarrow> i < length b \<Longrightarrow> col_sub a b ! i = fsub (a ! i) (b ! i)"
  "i < length a \<Longrightarrow> i < length b \<Longrightarrow> col_mul a b ! i = fmul (a ! i) (b ! i)"
  "i < length a \<Longrightarrow> i < length b \<Longrightarrow> col_div a b ! i = fdiv (a ! i) (b ! i)"
  "i < length a \<Longrightarrow> scale k a ! i = fmul (Fin k) (a ! i)"
  "i < length a \<Longrightarrow> div_by a k ! i = fdiv (a ! i) (Fin k)"
  by (simp_all add: col_add_def col_sub_def col_mul_def col_div_def scale_def div_by_def)

subsection \<open>OBV loop\<close>

lemma length_obv_step [simp]: "length (obv_step c v i obv) = length obv"
  by (simp add: obv_step_def)

lemma length_fold_obv_step [simp]: "length (fold (obv_step c v) js obv) = length obv"
  by (induction js arbitrary: obv) simp_all







lemma fadd_zero [simp]: "fadd x (Fin 0) = x"
  by (cases x) simp_all

lemma Fin_fin_val: "is_fin x \<Longrightarrow> Fin (fin_val x) = x"
  by (cases x) simp_all

text \<open>A column that starts finite and follows the OBV recurrence is finite throughout.\<close>

lemma obv_cells_finite:
  fixes cs vs :: "real list"
  assumes len: "length obv = length cs"
    and start: "obv ! 0 = Fin a"
    and step: "\<And>i. 1 \<le> i \<Longrightarrow> i < length cs \<Longrightarrow>
        obv ! i = (if cs ! (i - 1) < cs ! i then fadd (obv ! (i - 1)) (Fin (vs ! i))
                   else if cs ! i < cs ! (i - 1) then fsub (obv ! (i - 1)) (Fin (vs ! i))
                   else obv ! (i - 1))"
  shows "\<exists>os. obv = map Fin os \<and> length os = length cs \<and> (cs \<noteq> [] \<longrightarrow> os ! 0 = a) \<and>
           (\<forall>i. 1 \<le> i \<and> i < length cs \<longrightarrow>
              os ! i = (if cs ! (i - 1) < cs ! i then os ! (i - 1) + vs ! i
                        else if cs ! i < cs ! (i - 1) then os ! (i - 1) - vs ! i
                        else os ! (i - 1)))"
proof -
  have fin: "i < length cs \<Longrightarrow> is_fin (obv ! i)" for i
  proof (induction i)
    case 0
    then show ?case by (simp add: start)
  next
    case (Suc i)
    then have "is_fin (obv ! i)" by simp
    then obtain x where "obv ! i = Fin x" by (cases "obv ! i") simp_all
    with step [of "Suc i"] Suc.prems show ?case by (simp add: fsub_def)
  qed
  define os where "os = map fin_val obv"
  have eq: "obv = map Fin os"
    by (rule nth_equalityI) (simp_all add: os_def len Fin_fin_val fin)
  have cell: "i < length cs \<Longrightarrow> obv ! i = Fin (os ! i)" for i
    using eq len by (metis length_map nth_map)
  have "os ! i = (if cs ! (i - 1) < cs ! i then os ! (i - 1) + vs ! i
                  else if cs ! i < cs ! (i - 1) then os ! (i - 1) - vs ! i
                  else os ! (i - 1))"
    if "1 \<le> i" and "i < length cs" for i
  proof -
    from that have "i - 1 < length cs" by simp
    from step [OF that] cell [OF that(2)] cell [OF this] show ?thesis
      by (simp add: fsub_def split: if_splits)
  qed
  moreover have "cs \<noteq> [] \<longrightarrow> os ! 0 = a"
    using cell [of 0] start by simp
  moreover have "length os = length cs" by (simp add: os_def len)
  ultimately show ?thesis using eq by blast
qed


subsection \<open>The vectorised OBV expression\<close>

lemma cumsum_from_nth:
  "NaN \<notin> set xs \<Longrightarrow> i < length xs \<Longrightarrow>
   cumsum_from acc xs ! i = fadd (if i = 0 then acc else cumsum_from acc xs ! (i - 1)) (xs ! i)"
proof (induction xs arbitrary: acc i)
  case Nil
  then show ?case by simp
next
  case (Cons x xs)
  show ?case
  proof (cases i)
    case 0
    with Cons.prems show ?thesis by (auto simp: Let_def)
  next
    case (Suc k)
    with Cons.prems Cons.IH [of k "fadd acc x"] show ?thesis
      by (cases k) (auto simp: Let_def)
  qed
qed

lemma length_cumsum_from [simp]: "length (cumsum_from acc xs) = length xs"
  by (induction xs arbitrary: acc) (simp_all add: Let_def)

lemma length_diff [simp]: "length (diff col) = length col"
  by (simp add: diff_def)

lemma diff_Fin_0: "cs \<noteq> [] \<Longrightarrow> diff (map Fin cs) ! 0 = NaN"
  by (simp add: diff_def nth_col_ops shift_0 fsub_def)

lemma diff_Fin_nth:
  "0 < i \<Longrightarrow> i < length cs \<Longrightarrow> diff (map Fin cs) ! i = Fin (cs ! i - cs ! (i - 1))"
  by (simp add: diff_def nth_col_ops shift_nth fsub_def)

lemma obv_expr_recurrence:
  assumes "length vs = length cs" and "cs \<noteq> []"
  shows "\<exists>os. obv_expr (map Fin vs) (map Fin cs) = map Fin os \<and>
           length os = length cs \<and> os ! 0 = 0 \<and>
           (\<forall>i. 1 \<le> i \<and> i < length cs \<longrightarrow>
              os ! i = (if cs ! (i - 1) < cs ! i then os ! (i - 1) + vs ! i
                        else if cs ! i < cs ! (i - 1) then os ! (i - 1) - vs ! i
                        else os ! (i - 1)))"
proof -
  let ?c = "map Fin cs" and ?v = "map Fin vs"
  let ?n = "length cs"
  define signed where
    "signed = col_mul (col_mul ?v (notna_int (diff ?c))) (map sign_lambda (fillna (Fin 0) (diff ?c)))"
  define obv where "obv = cumsum signed"
  from assms have n: "0 < ?n" by simp
  have len_signed: "length signed = ?n"
    by (simp add: signed_def notna_int_def fillna_def assms(1))
  have signed_0: "signed ! 0 = Fin 0"
    using n assms(1)
    by (simp add: signed_def nth_col_ops notna_int_def fillna_def diff_Fin_0 sign_lambda_def
        fgt_def)
  have signed_i: "signed ! i =
      Fin (if cs ! (i - 1) < cs ! i then vs ! i else if cs ! i < cs ! (i - 1) then - vs ! i else 0)"
    if "1 \<le> i" and "i < ?n" for i
    using that assms(1)
    by (simp add: signed_def nth_col_ops notna_int_def fillna_def diff_Fin_nth sign_lambda_def
        fgt_def)
  have no_nan: "NaN \<notin> set signed"
  proof
    assume "NaN \<in> set signed"
    then obtain i where i: "i < length signed" "signed ! i = NaN"
      by (auto simp: in_set_conv_nth)
    show False
    proof (cases "i = 0")
      case True
      with i signed_0 show False by simp
    next
      case False
      with i len_signed signed_i [of i] show False by simp
    qed
  qed
  have len: "length obv = ?n" by (simp add: obv_def cumsum_def len_signed)
  have start: "obv ! 0 = Fin 0"
    using cumsum_from_nth [OF no_nan, of 0 "Fin 0"] n len_signed signed_0
    by (simp add: obv_def cumsum_def)
  have step: "obv ! i = (if cs ! (i - 1) < cs ! i then fadd (obv ! (i - 1)) (Fin (vs ! i))
                   else if cs ! i < cs ! (i - 1) then fsub (obv ! (i - 1)) (Fin (vs ! i))
                   else obv ! (i - 1))" if "1 \<le> i" and "i < ?n" for i
    using cumsum_from_nth [OF no_nan, of i "Fin 0"] that len_signed signed_i [OF that]
    by (simp add: obv_def cumsum_def fsub_def)
  from obv_cells_finite [OF len start step] assms(2) show ?thesis
    by (auto simp: obv_expr_def obv_def signed_def)
qed

subsection \<open>Exponential moving averages\<close>

lemma ewm_loop_Fin_Cons:
  assumes "w * (1 - \<alpha>) + (if adj then 1 else \<alpha>) \<noteq> 0"
  shows "ewm_loop \<alpha> adj (Fin m) w (Fin y # vals) =
     Fin ((w * (1 - \<alpha>) * m + (if adj then 1 else \<alpha>) * y) / (w * (1 - \<alpha>) + (if adj then 1 else \<alpha>)))
     # ewm_loop \<alpha> adj
         (Fin ((w * (1 - \<alpha>) * m + (if adj then 1 else \<alpha>) * y) /
               (w * (1 - \<alpha>) + (if adj then 1 else \<alpha>))))
         (if adj then w * (1 - \<alpha>) + 1 else 1) vals"
proof -
  let ?w1 = "w * (1 - \<alpha>)" and ?nw = "if adj then 1 else \<alpha>"
  have same: "(?w1 * y + ?nw * y) / (?w1 + ?nw) = y"
  proof -
    have "?w1 * y + ?nw * y = y * (?w1 + ?nw)" by (simp add: algebra_simps)
    with assms show ?thesis by simp
  qed
  show ?thesis
  proof (cases "m = y")
    case True
    with same assms show ?thesis by (simp add: Let_def)
  next
    case False
    with assms show ?thesis by (simp add: Let_def)
  qed
qed

text \<open>With adjustment: the closed form of the running mean.\<close>

lemma weighted_sum_shift:
  fixes a :: real
  shows "(\<Sum>k\<le>Suc j. a ^ (Suc j - k) * (y # ys) ! k) = a ^ Suc j * y + (\<Sum>k\<le>j. a ^ (j - k) * ys ! k)"
  by (simp add: sum.atMost_Suc_shift del: sum.atMost_Suc)

lemma weight_sum_shift:
  fixes a :: real
  shows "(\<Sum>k\<le>Suc j. a ^ (Suc j - k)) = a ^ Suc j + (\<Sum>k\<le>j. a ^ (j - k))"
  by (simp add: sum.atMost_Suc_shift del: sum.atMost_Suc)

lemma weight_sum_pos:
  fixes a :: real
  assumes "0 \<le> a"
  shows "0 < (\<Sum>k\<le>j. a ^ (j - k))"
proof -
  have "(\<Sum>k\<le>j. a ^ (j - k)) = (\<Sum>k<j. a ^ (j - k)) + 1"
    by (simp add: lessThan_Suc_atMost [symmetric])
  moreover have "0 \<le> (\<Sum>k<j. a ^ (j - k))"
    using assms by (intro sum_nonneg) simp
  ultimately show ?thesis by simp
qed

lemma ewm_loop_adjusted:
  assumes "0 \<le> 1 - \<alpha>" and "0 < w" and "j < length ys"
  shows "ewm_loop \<alpha> True (Fin m) w (map Fin ys) ! j =
     Fin ((w * (1 - \<alpha>) ^ Suc j * m + (\<Sum>k\<le>j. (1 - \<alpha>) ^ (j - k) * ys ! k)) /
          (w * (1 - \<alpha>) ^ Suc j + (\<Sum>k\<le>j. (1 - \<alpha>) ^ (j - k))))"
  using assms(2,3)
proof (induction ys arbitrary: m w j)
  case Nil
  then show ?case by simp
next
  case (Cons y ys)
  let ?a = "1 - \<alpha>"
  let ?w1 = "w * ?a"
  let ?m' = "(?w1 * m + y) / (?w1 + 1)"
  from assms(1) Cons.prems(1) have w1: "0 \<le> ?w1" by simp
  then have pos: "0 < ?w1 + 1" by simp
  then have ne: "?w1 + 1 \<noteq> 0" by simp
  have step: "ewm_loop \<alpha> True (Fin m) w (Fin y # map Fin ys) =
      Fin ?m' # ewm_loop \<alpha> True (Fin ?m') (?w1 + 1) (map Fin ys)"
    using ewm_loop_Fin_Cons [of w \<alpha> True m y "map Fin ys"] ne by simp
  show ?case
  proof (cases j)
    case 0
    with step show ?thesis by simp
  next
    case (Suc k)
    with Cons.prems have k: "k < length ys" by simp
    have wm: "(?w1 + 1) * ?m' = ?w1 * m + y" using ne by simp
    have "ewm_loop \<alpha> True (Fin m) w (map Fin (y # ys)) ! j =
        ewm_loop \<alpha> True (Fin ?m') (?w1 + 1) (map Fin ys) ! k"
      using step Suc by simp
    also have "\<dots> = Fin (((?w1 + 1) * ?a ^ Suc k * ?m' + (\<Sum>i\<le>k. ?a ^ (k - i) * ys ! i)) /
          ((?w1 + 1) * ?a ^ Suc k + (\<Sum>i\<le>k. ?a ^ (k - i))))"
      by (rule Cons.IH [OF pos k])
    finally have loop: "ewm_loop \<alpha> True (Fin m) w (map Fin (y # ys)) ! j =
        Fin (((?w1 + 1) * ?a ^ Suc k * ?m' + (\<Sum>i\<le>k. ?a ^ (k - i) * ys ! i)) /
          ((?w1 + 1) * ?a ^ Suc k + (\<Sum>i\<le>k. ?a ^ (k - i))))" .
    have "(?w1 + 1) * ?a ^ Suc k * ?m' = ?a ^ Suc k * ((?w1 + 1) * ?m')"
      by (simp only: mult_ac)
    also have "\<dots> = ?a ^ Suc k * (?w1 * m + y)" by (simp only: wm)
    finally have "(?w1 + 1) * ?a ^ Suc k * ?m' = ?a ^ Suc k * (?w1 * m + y)" .
    then have num: "(?w1 + 1) * ?a ^ Suc k * ?m' + (\<Sum>i\<le>k. ?a ^ (k - i) * ys ! i) =
        w * ?a ^ Suc j * m + (\<Sum>i\<le>j. ?a ^ (j - i) * (y # ys) ! i)"
      unfolding Suc weighted_sum_shift by (simp add: algebra_simps)
    have den: "(?w1 + 1) * ?a ^ Suc k + (\<Sum>i\<le>k. ?a ^ (k - i)) =
        w * ?a ^ Suc j + (\<Sum>i\<le>j. ?a ^ (j - i))"
      unfolding Suc weight_sum_shift by (simp add: algebra_simps)
    show ?thesis unfolding loop num den ..
  qed
qed

lemma ewm_mean_adjusted:
  assumes "0 \<le> 1 - \<alpha>" and "i < length cs"
  shows "ewm_mean \<alpha> True (map Fin cs) ! i =
     Fin ((\<Sum>k\<le>i. (1 - \<alpha>) ^ (i - k) * cs ! k) / (\<Sum>k\<le>i. (1 - \<alpha>) ^ (i - k)))"
proof -
  from assms(2) obtain c rest where cs: "cs = c # rest" by (cases cs) auto
  show ?thesis
  proof (cases i)
    case 0
    with cs show ?thesis by (simp add: ewm_mean_def)
  next
    case (Suc j)
    with assms(2) cs have j: "j < length rest" by simp
    have "ewm_mean \<alpha> True (map Fin cs) ! i = ewm_loop \<alpha> True (Fin c) 1 (map Fin rest) ! j"
      using cs Suc by (simp add: ewm_mean_def)
    also have "\<dots> = Fin ((1 * (1 - \<alpha>) ^ Suc j * c + (\<Sum>k\<le>j. (1 - \<alpha>) ^ (j - k) * rest ! k)) /
          (1 * (1 - \<alpha>) ^ Suc j + (\<Sum>k\<le>j. (1 - \<alpha>) ^ (j - k))))"
      by (rule ewm_loop_adjusted [OF assms(1) _ j]) simp
    also have "\<dots> = Fin ((\<Sum>k\<le>i. (1 - \<alpha>) ^ (i - k) * cs ! k) / (\<Sum>k\<le>i. (1 - \<alpha>) ^ (i - k)))"
      unfolding Suc cs weighted_sum_shift weight_sum_shift by simp
    finally show ?thesis .
  qed
qed

lemma span_alpha: "1 \<le> n \<Longrightarrow> 0 \<le> 1 - 2 / (real n + 1)"
  by (simp add: field_simps)

subsection \<open>RSI\<close>

lemma rolling_nth:
  "i < length col \<Longrightarrow>
   rolling n agg col ! i =
     (if Suc i < n then NaN
      else (let w = take n (drop (Suc i - n) col) in if NaN \<in> set w then NaN else agg w))"
  by (simp add: rolling_def)

lemma length_rolling [simp]: "length (rolling n agg col) = length col"
  by (simp add: rolling_def)

lemma where_col_map:
  "where_col col (map p col) other = map (\<lambda>x. if p x then x else other) col"
  by (induction col) (simp_all add: where_col_def)

lemma diff_Fin_cells:
  assumes "x \<in> set (diff (map Fin cs))"
  shows "x = NaN \<or> (\<exists>a. x = Fin a)"
proof -
  from assms obtain i where i: "i < length cs" "x = diff (map Fin cs) ! i"
    by (auto simp: in_set_conv_nth)
  then have ne: "cs \<noteq> []" by auto
  show ?thesis
  proof (cases "i = 0")
    case True
    with i ne show ?thesis by (simp add: diff_Fin_0)
  next
    case False
    with i show ?thesis by (simp add: diff_Fin_nth)
  qed
qed

lemma gain_cell:
  assumes "x = NaN \<or> (\<exists>a. x = Fin a)"
  shows "\<exists>a\<ge>0. (if fgt x (Fin 0) then x else Fin 0) = Fin a"
  using assms by (auto simp: fgt_def)

lemma loss_cell:
  assumes "x = NaN \<or> (\<exists>a. x = Fin a)"
  shows "\<exists>a\<ge>0. fneg (if flt x (Fin 0) then x else Fin 0) = Fin a"
  using assms by auto

lemma gains_nonneg:
  assumes "x \<in> set (where_col (diff (map Fin cs))
                      (map (\<lambda>d. fgt d (Fin 0)) (diff (map Fin cs))) (Fin 0))"
  shows "\<exists>a\<ge>0. x = Fin a"
proof -
  from assms obtain d where d: "d \<in> set (diff (map Fin cs))"
    "x = (if fgt d (Fin 0) then d else Fin 0)"
    unfolding where_col_map by auto
  from gain_cell [OF diff_Fin_cells [OF d(1)]] d(2) show ?thesis by simp
qed

lemma losses_nonneg:
  assumes "x \<in> set (map fneg (where_col (diff (map Fin cs))
                      (map (\<lambda>d. flt d (Fin 0)) (diff (map Fin cs))) (Fin 0)))"
  shows "\<exists>a\<ge>0. x = Fin a"
proof -
  from assms obtain d where d: "d \<in> set (diff (map Fin cs))"
    "x = fneg (if flt d (Fin 0) then d else Fin 0)"
    unfolding where_col_map by auto
  from loss_cell [OF diff_Fin_cells [OF d(1)]] d(2) show ?thesis by simp
qed

lemma foldl_fadd_nonneg:
  assumes "\<forall>x\<in>set w. \<exists>a\<ge>0. x = Fin a"
  shows "\<exists>s\<ge>0. foldl fadd (Fin b) w = Fin (b + s)"
  using assms
proof (induction w arbitrary: b)
  case Nil
  show ?case by (intro exI [of _ 0]) simp
next
  case (Cons x w)
  then obtain a where a: "0 \<le> a" "x = Fin a" by auto
  from Cons.IH [of "b + a"] Cons.prems obtain s where "0 \<le> s"
    "foldl fadd (Fin (b + a)) w = Fin (b + a + s)" by auto
  with a show ?case by (intro exI [of _ "a + s"]) (simp add: add.assoc)
qed

lemma rolling_mean_nonneg:
  assumes cells: "\<forall>x\<in>set col. \<exists>a\<ge>0. x = Fin a"
    and n: "0 < n" and i: "n \<le> Suc i" "i < length col"
  shows "\<exists>m\<ge>0. rolling n fmean col ! i = Fin m"
proof -
  let ?w = "take n (drop (Suc i - n) col)"
  have sub: "set ?w \<subseteq> set col"
    by (meson set_take_subset set_drop_subset subset_trans)
  with cells have w: "\<forall>x\<in>set ?w. \<exists>a\<ge>0. x = Fin a" by blast
  then have nonan: "NaN \<notin> set ?w" by auto
  from i have len: "length ?w = n" by simp
  from foldl_fadd_nonneg [OF w, of 0] obtain s where s: "0 \<le> s" "fsum ?w = Fin s"
    by (auto simp: fsum_def)
  from s len n have "fmean ?w = Fin (s / real n)" by (simp add: fmean_def)
  moreover have "0 \<le> s / real n" using s(1) by simp
  ultimately show ?thesis using i nonan by (simp add: rolling_nth Let_def)
qed

lemma rsi_cell:
  assumes "0 \<le> g" and "0 \<le> l"
  defines "r \<equiv> fsub (Fin 100) (fdiv (Fin 100) (fadd (Fin 1) (fdiv (Fin g) (Fin l))))"
  shows "0 < l \<Longrightarrow> \<exists>x. r = Fin x \<and> 0 \<le> x \<and> x \<le> 100"
    and "l = 0 \<Longrightarrow> 0 < g \<Longrightarrow> r = Fin 100"
proof -
  assume l: "0 < l"
  with assms(1) have "0 \<le> g / l" by simp
  then have d: "1 \<le> 1 + g / l" by simp
  then have pos: "0 < 1 + g / l" by linarith
  from d pos have "100 / (1 + g / l) \<le> 100"
    by (simp add: pos_divide_le_eq)
  moreover from pos have "0 \<le> 100 / (1 + g / l)" by simp
  moreover from pos have "1 + g / l \<noteq> 0" by linarith
  ultimately show "\<exists>x. r = Fin x \<and> 0 \<le> x \<and> x \<le> 100"
    using l by (simp add: r_def fsub_def)
next
  assume "l = 0" "0 < g"
  then show "r = Fin 100" by (simp add: r_def fsub_def signed_inf_def)
qed

lemma rsi_expr_eq: "rsi_expr close = calculate_rsi close 14"
  by (simp add: rsi_expr_def calculate_rsi_def rsi_gain_def rsi_loss_def Let_def)

lemma length_where_col_map [simp]: "length (where_col col (map p col) other) = length col"
  by (simp add: where_col_map)

text \<open>
  C8: for every close series and every bar i with at least 14 prior diffs, the 14-bar
  mean gain and mean loss are finite and not negative; when the mean loss is strictly
  positive the RSI at that bar lies in [0,100]; when the mean loss is 0 and the mean
  gain is strictly positive the relative strength is infinite and the RSI is exactly
  100. The RSI lines of openbb\_app.py are the same expression.
\<close>

theorem rsi_bounded:
  assumes "14 \<le> i" and "i < length cs"
  shows "\<exists>g l. rsi_gain (map Fin cs) 14 ! i = Fin g \<and> rsi_loss (map Fin cs) 14 ! i = Fin l \<and>
           0 \<le> g \<and> 0 \<le> l \<and>
           (0 < l \<longrightarrow> (\<exists>r. calculate_rsi (map Fin cs) 14 ! i = Fin r \<and> 0 \<le> r \<and> r \<le> 100)) \<and>
           (l = 0 \<and> 0 < g \<longrightarrow> calculate_rsi (map Fin cs) 14 ! i = Fin 100) \<and>
           rsi_expr (map Fin cs) ! i = calculate_rsi (map Fin cs) 14 ! i"
proof -
  let ?delta = "diff (map Fin cs)"
  let ?gains = "where_col ?delta (map (\<lambda>d. fgt d (Fin 0)) ?delta) (Fin 0)"
  let ?losses = "map fneg (where_col ?delta (map (\<lambda>d. flt d (Fin 0)) ?delta) (Fin 0))"
  from assms have i: "14 \<le> Suc i" "i < length ?gains" "i < length ?losses" by simp_all
  from rolling_mean_nonneg [OF _ _ i(1,2)] gains_nonneg [of _ cs]
  obtain g where g: "0 \<le> g" "rsi_gain (map Fin cs) 14 ! i = Fin g"
    by (auto simp: rsi_gain_def Let_def)
  from rolling_mean_nonneg [OF _ _ i(1,3)] losses_nonneg [of _ cs]
  obtain l where l: "0 \<le> l" "rsi_loss (map Fin cs) 14 ! i = Fin l"
    by (auto simp: rsi_loss_def Let_def)
  have len: "i < length (rsi_gain (map Fin cs) 14)" "i < length (rsi_loss (map Fin cs) 14)"
    using assms(2) by (simp_all add: rsi_gain_def rsi_loss_def Let_def)
  have cell: "calculate_rsi (map Fin cs) 14 ! i =
      fsub (Fin 100) (fdiv (Fin 100) (fadd (Fin 1) (fdiv (Fin g) (Fin l))))"
    using len g(2) l(2) by (simp add: calculate_rsi_def Let_def nth_col_ops)
  from rsi_cell [OF g(1) l(1)] cell g l show ?thesis
    by (intro exI [of _ g] exI [of _ l]) (simp add: rsi_expr_eq)
qed

lemma rising_cells:
  "rsi_gain (map Fin rising) 14 ! 14 = Fin 1" "rsi_loss (map Fin rising) 14 ! 14 = Fin 0"
  by (simp_all add: rsi_gain_def rsi_loss_def Let_def rolling_nth where_col_map diff_def
      col_sub_def shift_def rising_def fsub_def fgt_def fmean_def fsum_def)

lemma zigzag_cells:
  "rsi_gain (map Fin zigzag) 14 ! 14 = Fin (1 / 2)" "rsi_loss (map Fin zigzag) 14 ! 14 = Fin (1 / 2)"
  by (simp_all add: rsi_gain_def rsi_loss_def Let_def rolling_nth where_col_map diff_def
      col_sub_def shift_def zigzag_def fsub_def fgt_def fmean_def fsum_def)

theorem rsi_bounded_witness:
  "rsi_loss (map Fin rising) 14 ! 14 = Fin 0 \<and> rsi_gain (map Fin rising) 14 ! 14 = Fin 1 \<and>
   calculate_rsi (map Fin rising) 14 ! 14 = Fin 100 \<and>
   rsi_loss (map Fin zigzag) 14 ! 14 = Fin (1 / 2) \<and>
   (\<exists>r. calculate_rsi (map Fin zigzag) 14 ! 14 = Fin r \<and> 0 \<le> r \<and> r \<le> 100)"
proof -
  have h: "(14::nat) \<le> 14" "14 < length rising" "14 < length zigzag"
    by (simp_all add: rising_def zigzag_def)
  from rsi_bounded [OF h(1,2)] rsi_bounded [OF h(1,3)] rising_cells zigzag_cells
  show ?thesis by auto
qed

subsection \<open>Frames\<close>

lemma floats_simps [simp]:
  "floats (Float64 c) = c" "floats (Int64 xs) = map (\<lambda>x. Fin (real_of_int x)) xs"
  by (simp_all add: floats_def)

lemma calculate_columns:
  assumes "map_of df ''Close'' = Some c" and "map_of df ''High'' = Some h"
    and "map_of df ''Low'' = Some l" and "map_of df ''Volume'' = Some v"
    and "\<not> empty_frame df"
  shows "\<exists>df'. calculate_technical_indicators df = Inr df' \<and>
           map_of df' ''EMA_12'' = Some (Float64 (ewm_span 12 False (floats c))) \<and>
           map_of df' ''EMA_26'' = Some (Float64 (ewm_span 26 False (floats c))) \<and>
           map_of df' ''EMA_50'' = Some (Float64 (ewm_span 50 False (floats c))) \<and>
           map_of df' ''RSI'' = Some (Float64 (rsi_expr (floats c))) \<and>
           map_of df' ''OBV'' = Some (obv_line v c) \<and>
           map_of df' ''Pivot'' =
             Some (Float64 (div_by (floats (series_add (series_add h l) c)) 3)) \<and>
           map_of df' ''R1'' =
             Some (Float64 (col_sub (scale 2 (div_by (floats (series_add (series_add h l) c)) 3))
                     (floats l))) \<and>
           map_of df' ''S1'' =
             Some (Float64 (col_sub (scale 2 (div_by (floats (series_add (series_add h l) c)) 3))
                     (floats h))) \<and>
           map_of df' ''R2'' =
             Some (Float64 (col_add (div_by (floats (series_add (series_add h l) c)) 3)
                     (floats (series_sub h l)))) \<and>
           map_of df' ''S2'' =
             Some (Float64 (col_sub (div_by (floats (series_add (series_add h l) c)) 3)
                     (floats (series_sub h l)))) \<and>
           map_of df' ''R3'' = map_of df ''R3'' \<and> map_of df' ''S3'' = map_of df ''S3''"
  using assms
  by (simp add: calculate_technical_indicators_def calculate_steps_def update_conv' fcol_def)

lemma calculate_missing:
  assumes "\<not> empty_frame df"
  shows "map_of df ''Close'' = None \<Longrightarrow>
           calculate_technical_indicators df = Inl (KeyError ''Close'')"
    and "map_of df ''Close'' \<noteq> None \<Longrightarrow> map_of df ''Low'' = None \<Longrightarrow>
           calculate_technical_indicators df = Inl (KeyError ''Low'')"
    and "map_of df ''Close'' \<noteq> None \<Longrightarrow> map_of df ''Low'' \<noteq> None \<Longrightarrow>
         map_of df ''High'' = None \<Longrightarrow>
           calculate_technical_indicators df = Inl (KeyError ''High'')"
    and "map_of df ''Close'' \<noteq> None \<Longrightarrow> map_of df ''Low'' \<noteq> None \<Longrightarrow>
         map_of df ''High'' \<noteq> None \<Longrightarrow> map_of df ''Volume'' = None \<Longrightarrow>
           calculate_technical_indicators df = Inl (KeyError ''Volume'')"
  using assms
  by (auto simp: calculate_technical_indicators_def calculate_steps_def update_conv')

lemma add_columns:
  assumes "map_of df ''Close'' = Some c"
  shows "snd (add_technical_indicators df) = None"
    and "map_of (fst (add_technical_indicators df)) ''EMA_12'' =
           Some (Float64 (ewm_span 12 True (floats c)))"
    and "map_of (fst (add_technical_indicators df)) ''EMA_26'' =
           Some (Float64 (ewm_span 26 True (floats c)))"
    and "map_of (fst (add_technical_indicators df)) ''RSI'' = Some (Float64 (rsi_expr (floats c)))"
    and "map_of df ''Volume'' = None \<Longrightarrow>
         map_of (fst (add_technical_indicators df)) ''Volume_SMA'' = map_of df ''Volume_SMA'' \<and>
         map_of (fst (add_technical_indicators df)) ''Volume_Ratio'' = map_of df ''Volume_Ratio''"
  using assms
  by (auto simp: add_technical_indicators_def add_steps_def add_volume_steps_def update_conv'
      fcol_def)

lemma add_no_close:
  "map_of df ''Close'' = None \<Longrightarrow>
   add_technical_indicators df = (df, Some (KeyError ''Close''))"
  by (simp add: add_technical_indicators_def add_steps_def)

lemma series_float_simps [simp]:
  "series_add (Float64 a) (Float64 b) = Float64 (col_add a b)"
  "series_sub (Float64 a) (Float64 b) = Float64 (col_sub a b)"
  by simp_all

subsection \<open>Pivot points\<close>

lemma pivot_points_previous_bar:
  assumes "length hs = length cs" and "length ls = length cs" and "0 < i" and "i < length cs"
  defines "p \<equiv> calculate_pivot_points (map Fin hs) (map Fin ls) (map Fin cs)"
  defines "pv \<equiv> (hs ! (i - 1) + ls ! (i - 1) + cs ! (i - 1)) / 3"
  shows "Pivot p ! i = Fin pv"
    and "R1 p ! i = Fin (2 * pv - ls ! (i - 1))"
    and "R2 p ! i = Fin (pv + (hs ! (i - 1) - ls ! (i - 1)))"
    and "R3 p ! i = Fin (hs ! (i - 1) + 2 * (pv - ls ! (i - 1)))"
    and "S1 p ! i = Fin (2 * pv - hs ! (i - 1))"
    and "S2 p ! i = Fin (pv - (hs ! (i - 1) - ls ! (i - 1)))"
    and "S3 p ! i = Fin (ls ! (i - 1) - 2 * (hs ! (i - 1) - pv))"
  using assms(1-4) unfolding p_def pv_def
  by (simp_all add: calculate_pivot_points_def Let_def nth_col_ops shift_nth fsub_def)

lemma pivot_points_current_bar:
  assumes "length hs = length cs" and "length ls = length cs" and "i < length cs"
  defines "pv \<equiv> (hs ! i + ls ! i + cs ! i) / 3"
  defines "P \<equiv> div_by (col_add (col_add (map Fin hs) (map Fin ls)) (map Fin cs)) 3"
  shows "P ! i = Fin pv"
    and "col_sub (scale 2 P) (map Fin ls) ! i = Fin (2 * pv - ls ! i)"
    and "col_sub (scale 2 P) (map Fin hs) ! i = Fin (2 * pv - hs ! i)"
    and "col_add P (col_sub (map Fin hs) (map Fin ls)) ! i = Fin (pv + (hs ! i - ls ! i))"
    and "col_sub P (col_sub (map Fin hs) (map Fin ls)) ! i = Fin (pv - (hs ! i - ls ! i))"
  using assms(1-3) unfolding P_def pv_def
  by (simp_all add: nth_col_ops fsub_def)

lemma two_bars_columns:
  "map_of two_bars ''Close'' = Some (Float64 [Fin 2, Fin 5])"
  "map_of two_bars ''High'' = Some (Float64 [Fin 3, Fin 6])"
  "map_of two_bars ''Low'' = Some (Float64 [Fin 1, Fin 4])"
  "map_of two_bars ''Volume'' = Some (Int64 [100, 50])"
  "\<not> empty_frame two_bars" "map_of two_bars ''R3'' = None" "map_of two_bars ''S3'' = None"
  by (simp_all add: two_bars_def empty_frame_def series_len_def)

lemma wrap64_id: "- (2 ^ 63) \<le> x \<Longrightarrow> x < 2 ^ 63 \<Longrightarrow> wrap64 x = x"
  by (simp add: wrap64_def)

lemma two_bars_result:
  "column_of (calculate_technical_indicators two_bars) ''Pivot'' = Some (Float64 [Fin 2, Fin 5])"
  "column_of (calculate_technical_indicators two_bars) ''R3'' = None"
  "column_of (calculate_technical_indicators two_bars) ''OBV'' = Some (Int64 [0, 50])"
  "column_of (calculate_technical_indicators two_bars) ''EMA_12'' =
     Some (Float64 [Fin 2, Fin (32 / 13)])"
  using calculate_columns [OF two_bars_columns(1-5)]
  by (auto simp: column_of_def two_bars_columns div_by_def col_add_def col_sub_def
      obv_line_def obv_int64_def cumsum64_def mul64_def notna_int64_def fillna_def diff_def
      shift_def sign_lambda_int_def fgt_def fsub_def Let_def ewm_span_def ewm_mean_def
      wrap64_id)

text \<open>
  C5, as stated, fails for \<open>calculate_technical_indicators\<close>, which computes
  \<open>df['Pivot'] = (df['High'] + df['Low'] + df['Close']) / 3\<close> with no shift: on the
  two-bar example the pivot at bar 1 is (6 + 4 + 5) / 3 = 5, from the bar's own prices,
  not (3 + 1 + 2) / 3 = 2 from the previous bar's; and it sets no R3 or S3 column.
\<close>

theorem pivot_openbb_uses_current_bar:
  "column_of (calculate_technical_indicators two_bars) ''Pivot'' = Some (Float64 [Fin 2, Fin 5]) \<and>
   map_of two_bars ''High'' = Some (Float64 [Fin 3, Fin 6]) \<and>
   map_of two_bars ''Low'' = Some (Float64 [Fin 1, Fin 4]) \<and>
   map_of two_bars ''Close'' = Some (Float64 [Fin 2, Fin 5]) \<and>
   Fin 5 \<noteq> Fin ((3 + 1 + 2) / 3) \<and>
   column_of (calculate_technical_indicators two_bars) ''R3'' = None"
  by (simp add: two_bars_result two_bars_columns)

text \<open>
  C5, amended: for every series and every bar i of at least 1, the seven levels of
  \<open>_calculate_pivot_points\<close> are computed from the previous bar: Pivot[i] =
  (high[i-1] + low[i-1] + close[i-1]) / 3, R1[i] = 2 * Pivot[i] - low[i-1], R2[i] =
  Pivot[i] + (high[i-1] - low[i-1]), R3[i] = high[i-1] + 2 * (Pivot[i] - low[i-1]),
  S1[i] = 2 * Pivot[i] - high[i-1], S2[i] = Pivot[i] - (high[i-1] - low[i-1]), S3[i] =
  low[i-1] - 2 * (high[i-1] - Pivot[i]). \<open>calculate_technical_indicators\<close> computes
  Pivot, R1, S1, R2 and S2 by the same formulas from the current bar's high, low and
  close, and computes no R3 or S3.
\<close>

theorem pivot_levels:
  assumes "length hs = length cs" and "length ls = length cs" and "1 \<le> i" and "i < length cs"
  shows
   "(let p = calculate_pivot_points (map Fin hs) (map Fin ls) (map Fin cs);
         pv = (hs ! (i - 1) + ls ! (i - 1) + cs ! (i - 1)) / 3
     in Pivot p ! i = Fin pv \<and>
        R1 p ! i = Fin (2 * pv - ls ! (i - 1)) \<and>
        R2 p ! i = Fin (pv + (hs ! (i - 1) - ls ! (i - 1))) \<and>
        R3 p ! i = Fin (hs ! (i - 1) + 2 * (pv - ls ! (i - 1))) \<and>
        S1 p ! i = Fin (2 * pv - hs ! (i - 1)) \<and>
        S2 p ! i = Fin (pv - (hs ! (i - 1) - ls ! (i - 1))) \<and>
        S3 p ! i = Fin (ls ! (i - 1) - 2 * (hs ! (i - 1) - pv))) \<and>
    (map_of df ''High'' = Some (Float64 (map Fin hs)) \<and>
     map_of df ''Low'' = Some (Float64 (map Fin ls)) \<and>
     map_of df ''Close'' = Some (Float64 (map Fin cs)) \<and> map_of df ''Volume'' \<noteq> None \<and>
     \<not> empty_frame df \<longrightarrow>
     (let r = calculate_technical_indicators df; pv = (hs ! i + ls ! i + cs ! i) / 3
      in (\<exists>P r1 s1 r2 s2.
            column_of r ''Pivot'' = Some (Float64 P) \<and> P ! i = Fin pv \<and>
            column_of r ''R1'' = Some (Float64 r1) \<and> r1 ! i = Fin (2 * pv - ls ! i) \<and>
            column_of r ''S1'' = Some (Float64 s1) \<and> s1 ! i = Fin (2 * pv - hs ! i) \<and>
            column_of r ''R2'' = Some (Float64 r2) \<and> r2 ! i = Fin (pv + (hs ! i - ls ! i)) \<and>
            column_of r ''S2'' = Some (Float64 s2) \<and> s2 ! i = Fin (pv - (hs ! i - ls ! i))) \<and>
         column_of r ''R3'' = map_of df ''R3'' \<and> column_of r ''S3'' = map_of df ''S3''))"
  (is "?enhanced \<and> (?frame \<longrightarrow> ?openbb)")
proof (intro conjI impI)
  from assms(3) have i: "0 < i" by simp
  from pivot_points_previous_bar [OF assms(1,2) i assms(4)]
  show ?enhanced by (simp add: Let_def)
next
  assume ?frame
  then have h: "map_of df ''High'' = Some (Float64 (map Fin hs))"
      "map_of df ''Low'' = Some (Float64 (map Fin ls))"
      "map_of df ''Close'' = Some (Float64 (map Fin cs))"
      "map_of df ''Volume'' \<noteq> None" "\<not> empty_frame df"
    by simp_all
  from h(4) obtain v where v: "map_of df ''Volume'' = Some v" by auto
  let ?P = "div_by (col_add (col_add (map Fin hs) (map Fin ls)) (map Fin cs)) 3"
  from calculate_columns [OF h(3) h(1) h(2) v h(5)] obtain df' where
    "calculate_technical_indicators df = Inr df'"
    "map_of df' ''Pivot'' = Some (Float64 ?P)"
    "map_of df' ''R1'' = Some (Float64 (col_sub (scale 2 ?P) (map Fin ls)))"
    "map_of df' ''S1'' = Some (Float64 (col_sub (scale 2 ?P) (map Fin hs)))"
    "map_of df' ''R2'' = Some (Float64 (col_add ?P (col_sub (map Fin hs) (map Fin ls))))"
    "map_of df' ''S2'' = Some (Float64 (col_sub ?P (col_sub (map Fin hs) (map Fin ls))))"
    "map_of df' ''R3'' = map_of df ''R3''" "map_of df' ''S3'' = map_of df ''S3''"
    by auto
  with pivot_points_current_bar [OF assms(1,2,4)]
  show ?openbb by (simp add: Let_def column_of_def)
qed

theorem pivot_levels_witness:
  "Pivot (calculate_pivot_points [Fin 3, Fin 6] [Fin 1, Fin 4] [Fin 2, Fin 5]) ! 1 = Fin 2 \<and>
   R3 (calculate_pivot_points [Fin 3, Fin 6] [Fin 1, Fin 4] [Fin 2, Fin 5]) ! 1 = Fin 5 \<and>
   S3 (calculate_pivot_points [Fin 3, Fin 6] [Fin 1, Fin 4] [Fin 2, Fin 5]) ! 1 = Fin (- 1) \<and>
   (\<exists>P. column_of (calculate_technical_indicators two_bars) ''Pivot'' = Some (Float64 P) \<and>
        P ! 1 = Fin 5)"
  using pivot_levels [of "[3, 6]" "[2, 5]" "[1, 4]" 1 two_bars]
  by (auto simp: two_bars_columns Let_def)


lemma ewm_loop_seeded:
  "ewm_loop \<alpha> False (Fin m) 1 (map Fin ys) = map Fin (seeded_from \<alpha> m ys)"
proof (induction ys arbitrary: m)
  case Nil
  show ?case by simp
next
  case (Cons y ys)
  have "ewm_loop \<alpha> False (Fin m) 1 (Fin y # map Fin ys) =
      Fin ((1 - \<alpha>) * m + \<alpha> * y) # ewm_loop \<alpha> False (Fin ((1 - \<alpha>) * m + \<alpha> * y)) 1 (map Fin ys)"
    using ewm_loop_Fin_Cons [of 1 \<alpha> False m y "map Fin ys"] by simp
  with Cons.IH show ?case by simp
qed

lemma ewm_mean_seeded: "ewm_mean \<alpha> False (map Fin cs) = map Fin (seeded_ema \<alpha> cs)"
  by (cases cs) (simp_all add: ewm_mean_def seeded_ema_def ewm_loop_seeded)

lemma ewm_mean_weighted:
  assumes "0 \<le> 1 - \<alpha>" and "i < length cs"
  shows "ewm_mean \<alpha> True (map Fin cs) ! i = Fin (weighted_mean \<alpha> cs i)"
  unfolding weighted_mean_def using assms by (rule ewm_mean_adjusted)

text \<open>
  C6, as stated, fails for \<open>calculate_technical_indicators\<close>, which passes
  \<open>adjust=False\<close>: on closes 2, 5 its EMA_12 at bar 1 is
  (11/13) * 2 + (2/13) * 5 = 32/13, the recursion seeded with the first close, while the
  exponentially-weighted mean of the two closes is ((11/13) * 2 + 5) / (11/13 + 1) = 29/8.
\<close>

theorem ema_openbb_seeded_with_first_close:
  "column_of (calculate_technical_indicators two_bars) ''EMA_12'' =
     Some (Float64 [Fin 2, Fin (32 / 13)]) \<and>
   map_of two_bars ''Close'' = Some (Float64 [Fin 2, Fin 5]) \<and>
   weighted_mean (2 / (12 + 1)) [2, 5] 1 = 29 / 8 \<and>
   Fin (32 / 13) \<noteq> Fin (29 / 8)"
  by (simp add: two_bars_result two_bars_columns weighted_mean_def)

text \<open>
  C6, amended: with \<open>\<alpha> = 2 / (n + 1)\<close>, the EMA_n of \<open>_add_technical_indicators\<close>
  (n = 12, 26, 50; proved for every span n of at least 1) and the EMA_12 and EMA_26 of
  \<open>add_technical_indicators\<close>, which leave the library's default \<open>adjust=True\<close>, are
  at bar i the exponentially-weighted mean of the closes 0..i with weight
  \<open>(1 - \<alpha>) ^ (i - k)\<close> on close k. The EMA_12, EMA_26 and EMA_50 of
  \<open>calculate_technical_indicators\<close>, which passes \<open>adjust=False\<close>, are the recursion
  seeded with the first close: \<open>e\<^sub>0 = c\<^sub>0\<close> and
  \<open>e\<^sub>i = (1 - \<alpha>) * e\<^sub>i\<^sub>-\<^sub>1 + \<alpha> * c\<^sub>i\<close>.
\<close>

theorem ema_start_up:
  assumes "1 \<le> n" and "i < length cs"
  shows
   "enhanced_EMA n (map Fin cs) ! i = Fin (weighted_mean (2 / (real n + 1)) cs i) \<and>
    (map_of df ''Close'' = Some (Float64 (map Fin cs)) \<longrightarrow>
       (\<exists>e12 e26.
          map_of (fst (add_technical_indicators df)) ''EMA_12'' = Some (Float64 e12) \<and>
          e12 ! i = Fin (weighted_mean (2 / (12 + 1)) cs i) \<and>
          map_of (fst (add_technical_indicators df)) ''EMA_26'' = Some (Float64 e26) \<and>
          e26 ! i = Fin (weighted_mean (2 / (26 + 1)) cs i))) \<and>
    (map_of df ''Close'' = Some (Float64 (map Fin cs)) \<and> map_of df ''High'' \<noteq> None \<and>
     map_of df ''Low'' \<noteq> None \<and> map_of df ''Volume'' \<noteq> None \<and> \<not> empty_frame df \<longrightarrow>
       column_of (calculate_technical_indicators df) ''EMA_12'' =
         Some (Float64 (map Fin (seeded_ema (2 / (12 + 1)) cs))) \<and>
       column_of (calculate_technical_indicators df) ''EMA_26'' =
         Some (Float64 (map Fin (seeded_ema (2 / (26 + 1)) cs))) \<and>
       column_of (calculate_technical_indicators df) ''EMA_50'' =
         Some (Float64 (map Fin (seeded_ema (2 / (50 + 1)) cs))))"
  (is "?enhanced \<and> (?has_close \<longrightarrow> ?add) \<and> (?frame \<longrightarrow> ?calculate)")
proof -
  from span_alpha [OF assms(1)] assms(2)
  have enhanced: ?enhanced by (simp add: enhanced_EMA_def ewm_span_def ewm_mean_weighted)
  have add: "?has_close \<longrightarrow> ?add"
  proof
    assume c: ?has_close
    have "ewm_span 12 True (map Fin cs) ! i = Fin (weighted_mean (2 / (12 + 1)) cs i)"
      "ewm_span 26 True (map Fin cs) ! i = Fin (weighted_mean (2 / (26 + 1)) cs i)"
      using assms(2) by (simp_all add: ewm_span_def ewm_mean_weighted)
    with add_columns(2,3) [OF c] show ?add by simp
  qed
  have calculate: "?frame \<longrightarrow> ?calculate"
  proof
    assume ?frame
    then obtain h l v where h: "map_of df ''Close'' = Some (Float64 (map Fin cs))"
        "map_of df ''High'' = Some h" "map_of df ''Low'' = Some l"
        "map_of df ''Volume'' = Some v" "\<not> empty_frame df"
      by auto
    from calculate_columns [OF h] show ?calculate
      by (auto simp: column_of_def ewm_span_def ewm_mean_seeded)
  qed
  from enhanced add calculate show ?thesis by (intro conjI)
qed

theorem ema_start_up_witness:
  "enhanced_EMA 12 [Fin 2, Fin 5] ! 1 = Fin (29 / 8) \<and>
   map_of (fst (add_technical_indicators two_bars)) ''EMA_12'' =
     Some (Float64 [Fin 2, Fin (29 / 8)]) \<and>
   column_of (calculate_technical_indicators two_bars) ''EMA_12'' =
     Some (Float64 [Fin 2, Fin (32 / 13)])"
proof -
  have w: "weighted_mean (2 / (12 + 1)) [2, 5] 1 = 29 / 8"
    by (simp add: weighted_mean_def)
  have s: "seeded_ema (2 / (12 + 1)) [2, 5] = [2, 32 / 13]"
    by (simp add: seeded_ema_def)
  have a: "map_of (fst (add_technical_indicators two_bars)) ''EMA_12'' =
      Some (Float64 [Fin 2, Fin (29 / 8)])"
    using add_columns(2) [OF two_bars_columns(1)]
    by (simp add: ewm_span_def ewm_mean_def Let_def)
  from ema_start_up [of 12 1 "[2, 5]" two_bars] w s a show ?thesis
    by (simp add: two_bars_columns)
qed


subsection \<open>The OBV line in int64\<close>

lemma length_cumsum64_from [simp]: "length (cumsum64_from acc xs) = length xs"
  by (induction xs arbitrary: acc) (simp_all add: Let_def)





lemma huge_volume_columns:
  "map_of huge_volume ''Close'' = Some (Float64 [Fin 1, Fin 2, Fin 3])"
  "map_of huge_volume ''High'' = Some (Float64 [Fin 1, Fin 2, Fin 3])"
  "map_of huge_volume ''Low'' = Some (Float64 [Fin 1, Fin 2, Fin 3])"
  "map_of huge_volume ''Volume'' = Some (Int64 [2 ^ 62, 2 ^ 62, 2 ^ 62])"
  "\<not> empty_frame huge_volume"
  by (simp_all add: huge_volume_def empty_frame_def series_len_def)

text \<open>With a float64 Volume column the OBV line is a float64 column and no bound is
  needed.\<close>

lemma obv_float64_volume:
  assumes "length ws = length cs" and "cs \<noteq> []"
    and "map_of df ''Close'' = Some (Float64 (map Fin cs))"
    and "map_of df ''Volume'' = Some (Float64 (map Fin ws))"
    and "map_of df ''High'' \<noteq> None" and "map_of df ''Low'' \<noteq> None" and "\<not> empty_frame df"
  shows "\<exists>os. column_of (calculate_technical_indicators df) ''OBV'' = Some (Float64 (map Fin os)) \<and>
           length os = length cs \<and> os ! 0 = 0 \<and>
           (\<forall>i. 1 \<le> i \<and> i < length cs \<longrightarrow>
              os ! i = (if cs ! (i - 1) < cs ! i then os ! (i - 1) + ws ! i
                        else if cs ! i < cs ! (i - 1) then os ! (i - 1) - ws ! i
                        else os ! (i - 1)))"
proof -
  from assms(5,6) obtain h l where "map_of df ''High'' = Some h" "map_of df ''Low'' = Some l"
    by auto
  from calculate_columns [OF assms(3) this assms(4,7)]
  have "column_of (calculate_technical_indicators df) ''OBV'' =
      Some (Float64 (obv_expr (map Fin ws) (map Fin cs)))"
    by (auto simp: column_of_def obv_line_def)
  with obv_expr_recurrence [OF assms(1,2)] show ?thesis by auto
qed

text \<open>
  Beyond that bound the int64 running sum does wrap around: three bars of volume 2^62
  with rising closes give OBV 0, 2^62 and then 2^62 + 2^62 = -2^63.
\<close>

lemma obv_int64_wraps:
  "column_of (calculate_technical_indicators huge_volume) ''OBV'' =
     Some (Int64 [0, 2 ^ 62, - (2 ^ 63)])"
  using calculate_columns [OF huge_volume_columns]
  by (auto simp: column_of_def obv_line_def obv_int64_def cumsum64_def mul64_def
      notna_int64_def fillna_def diff_def shift_def col_sub_def sign_lambda_int_def fgt_def
      fsub_def Let_def wrap64_def)




subsection \<open>Missing columns\<close>

text \<open>
  C7, amended: on a frame that is not empty, \<open>calculate_technical_indicators\<close> fails
  with the KeyError of the first required column that is missing, in the order it reads
  them (Close, Low, High, Volume), and nothing catches it.
  \<open>add_technical_indicators\<close> never fails: it reads no High or Low column, it skips
  the two volume indicators without any warning when the frame has no Volume column
  (the guard \<open>if 'Volume' in df.columns\<close>), and its \<open>try/except\<close> turns any
  other failure (a missing Close column) into a warning and returns the frame as it
  is by then; with a Close column it returns without a warning whatever other columns
  are missing.
\<close>

theorem missing_column:
  "(\<not> empty_frame df \<longrightarrow>
      (map_of df ''Close'' = None \<longrightarrow>
         calculate_technical_indicators df = Inl (KeyError ''Close'')) \<and>
      (map_of df ''Close'' \<noteq> None \<and> map_of df ''Low'' = None \<longrightarrow>
         calculate_technical_indicators df = Inl (KeyError ''Low'')) \<and>
      (map_of df ''Close'' \<noteq> None \<and> map_of df ''Low'' \<noteq> None \<and>
       map_of df ''High'' = None \<longrightarrow>
         calculate_technical_indicators df = Inl (KeyError ''High'')) \<and>
      (map_of df ''Close'' \<noteq> None \<and> map_of df ''Low'' \<noteq> None \<and>
       map_of df ''High'' \<noteq> None \<and> map_of df ''Volume'' = None \<longrightarrow>
         calculate_technical_indicators df = Inl (KeyError ''Volume''))) \<and>
   (map_of df ''Close'' \<noteq> None \<and> map_of df ''Volume'' = None \<longrightarrow>
      snd (add_technical_indicators df) = None \<and>
      map_of (fst (add_technical_indicators df)) ''Volume_SMA'' = map_of df ''Volume_SMA'' \<and>
      map_of (fst (add_technical_indicators df)) ''Volume_Ratio'' = map_of df ''Volume_Ratio'') \<and>
   (map_of df ''Close'' = None \<longrightarrow>
      add_technical_indicators df = (df, Some (KeyError ''Close''))) \<and>
   (map_of df ''Close'' \<noteq> None \<longrightarrow> snd (add_technical_indicators df) = None)"
  using calculate_missing [of df] add_columns(1,5) [of df] add_no_close [of df]
  by auto

lemma example_frames:
  "\<not> empty_frame no_low" "map_of no_low ''Close'' \<noteq> None" "map_of no_low ''Low'' = None"
  "map_of close_only ''Close'' \<noteq> None" "map_of close_only ''Volume'' = None"
  "map_of close_only ''Volume_SMA'' = None"
  by (simp_all add: no_low_def close_only_def empty_frame_def series_len_def)

text \<open>
  C7, as stated, fails for \<open>add_technical_indicators\<close>: on a frame without a Volume
  column it returns normally, with no warning and without the Volume_SMA and
  Volume_Ratio columns; on a frame without a Close column the KeyError is caught and
  the frame comes back unchanged.
\<close>

theorem add_skips_missing_volume:
  "map_of close_only ''Volume'' = None \<and>
   snd (add_technical_indicators close_only) = None \<and>
   map_of (fst (add_technical_indicators close_only)) ''Volume_SMA'' = None \<and>
   map_of (fst (add_technical_indicators close_only)) ''Volume_Ratio'' = None \<and>
   add_technical_indicators [(''Volume'', Int64 [100])] =
     ([(''Volume'', Int64 [100])], Some (KeyError ''Close''))"
  using add_columns(1,5) [of close_only "Float64 [Fin 2]"]
    add_no_close [of "[(''Volume'', Int64 [100])]"]
  by (simp add: close_only_def)

theorem missing_column_witness:
  "\<not> empty_frame no_low \<and> map_of no_low ''Close'' \<noteq> None \<and> map_of no_low ''Low'' = None \<and>
   calculate_technical_indicators no_low = Inl (KeyError ''Low'') \<and>
   map_of close_only ''Close'' \<noteq> None \<and> map_of close_only ''Volume'' = None \<and>
   snd (add_technical_indicators close_only) = None \<and>
   map_of (fst (add_technical_indicators close_only)) ''Volume_SMA'' = None"
  using missing_column [of no_low] missing_column [of close_only] example_frames
  by simp

end
